theory Spec2Isabelle
  imports Complex_Main "HOL-Library.Char_ord" "HOL-Library.List_Lexorder" "HOL-Library.Sublist"
begin

section \<open>Python string primitives\<close>

text \<open>
  Python \<^verbatim>\<open>str\<close> values are modelled as HOL strings whose characters are the code
  points below 256.  \<^verbatim>\<open>str.lower\<close> maps the upper-case letters of that range
  (A-Z and the Latin-1 capitals) to their lower-case partners, 32 code points higher;
  \<^verbatim>\<open>str.strip\<close> removes the characters for which \<^verbatim>\<open>str.isspace\<close> holds from both ends.
\<close>

definition is_upper :: "char \<Rightarrow> bool" where
  "is_upper c = (let n = (of_char c :: nat) in
     (65 \<le> n \<and> n \<le> 90) \<or> (192 \<le> n \<and> n \<le> 222 \<and> n \<noteq> 215))"

definition lower_char :: "char \<Rightarrow> char" where
  "lower_char c = (if is_upper c then char_of (of_char c + (32::nat)) else c)"

definition py_lower :: "string \<Rightarrow> string" where
  "py_lower s = map lower_char s"

definition is_space :: "char \<Rightarrow> bool" where
  "is_space c = (let n = (of_char c :: nat) in
     (9 \<le> n \<and> n \<le> 13) \<or> (28 \<le> n \<and> n \<le> 32) \<or> n = 133 \<or> n = 160)"

definition py_strip :: "string \<Rightarrow> string" where
  "py_strip s = rev (dropWhile is_space (rev (dropWhile is_space s)))"

text \<open>\<^verbatim>\<open>d.get(k, dflt)\<close> on a dictionary literal, kept as an association list.\<close>

definition dict_get :: "('k \<times> 'v) list \<Rightarrow> 'k \<Rightarrow> 'v \<Rightarrow> 'v" where
  "dict_get d k dflt = (case map_of d k of Some v \<Rightarrow> v | None \<Rightarrow> dflt)"

text \<open>\<^verbatim>\<open>p in s\<close> on strings: \<open>p\<close> occurs in \<open>s\<close> as a contiguous run.\<close>

fun py_contains :: "string \<Rightarrow> string \<Rightarrow> bool" where
  "py_contains p [] = (p = [])"
| "py_contains p (c # cs) = (prefix p (c # cs) \<or> py_contains p cs)"

text \<open>\<^verbatim>\<open>s.split(sep)\<close> for a one-character separator; the result is never empty.\<close>

fun py_split :: "char \<Rightarrow> string \<Rightarrow> string list" where
  "py_split sep [] = [] # []"
| "py_split sep (c # cs) =
     (if c = sep then [] # py_split sep cs
      else (case py_split sep cs of
              [] \<Rightarrow> [c] # []
            | w # ws \<Rightarrow> (c # w) # ws))"

fun py_join :: "string \<Rightarrow> string list \<Rightarrow> string" where
  "py_join sep [] = []"
| "py_join sep [x] = x"
| "py_join sep (x # y # ys) = x @ sep @ py_join sep (y # ys)"

text \<open>
  \<^verbatim>\<open>str.title\<close>: a character that follows a cased character is lower-cased, any other
  character gets its title-case form.  The title-case form can leave the code points below
  256 (the letter at 255 gives 376 and the micro sign 924) and can be two characters
  (the sharp s gives \<^verbatim>\<open>Ss\<close>), so the result of \<^verbatim>\<open>str.title\<close> is kept as the list of its code
  points; \<open>code_points\<close> gives that list for a string of the modelled range.
\<close>

definition code_points :: "string \<Rightarrow> nat list" where
  "code_points s = map of_char s"

definition is_cased :: "char \<Rightarrow> bool" where
  "is_cased c = (let n = (of_char c :: nat) in
     (65 \<le> n \<and> n \<le> 90) \<or> (97 \<le> n \<and> n \<le> 122) \<or> n = 170 \<or> n = 181 \<or> n = 186
     \<or> (192 \<le> n \<and> n \<le> 255 \<and> n \<noteq> 215 \<and> n \<noteq> 247))"

definition title_char :: "char \<Rightarrow> nat list" where
  "title_char c = (let n = (of_char c :: nat) in
     if (97 \<le> n \<and> n \<le> 122) \<or> (224 \<le> n \<and> n \<le> 254 \<and> n \<noteq> 247) then [n - 32]
     else if n = 181 then [924]
     else if n = 223 then [83, 115]
     else if n = 255 then [376]
     else [n])"

fun title_from :: "bool \<Rightarrow> string \<Rightarrow> nat list" where
  "title_from previous_is_cased [] = []"
| "title_from previous_is_cased (c # cs) =
     (if previous_is_cased then [of_char (lower_char c)] else title_char c)
       @ title_from (is_cased c) cs"

definition py_title :: "string \<Rightarrow> nat list" where
  "py_title s = title_from False s"

text \<open>
  \<^verbatim>\<open>int(s)\<close> on a string: white space around the number is dropped, one sign is allowed,
  the digits may be separated by single underscores, and more than 4300 digits are refused
  (CPython's default limit).  White space is here the characters 9 to 13, 32, 133 and 160;
  the separators 28 to 31, which \<^verbatim>\<open>str.strip\<close> removes, are not skipped by \<^verbatim>\<open>int\<close>.
  \<open>None\<close> stands for the \<^verbatim>\<open>ValueError\<close>.
\<close>

definition is_int_space :: "char \<Rightarrow> bool" where
  "is_int_space c = (let n = (of_char c :: nat) in
     (9 \<le> n \<and> n \<le> 13) \<or> n = 32 \<or> n = 133 \<or> n = 160)"

definition int_strip :: "string \<Rightarrow> string" where
  "int_strip s = rev (dropWhile is_int_space (rev (dropWhile is_int_space s)))"

definition is_digit :: "char \<Rightarrow> bool" where
  "is_digit c = (let n = (of_char c :: nat) in 48 \<le> n \<and> n \<le> 57)"

definition digit_val :: "char \<Rightarrow> int" where
  "digit_val c = int (of_char c) - 48"

fun digits_ok :: "string \<Rightarrow> bool" where
  "digits_ok [] = False"
| "digits_ok [c] = is_digit c"
| "digits_ok (c # d # ds) =
     (is_digit c \<and> (if d = CHR ''_'' then digits_ok ds else digits_ok (d # ds)))"

definition digits_value :: "string \<Rightarrow> int" where
  "digits_value ds = foldl (\<lambda>acc c. 10 * acc + digit_val c) 0 (filter is_digit ds)"

definition max_str_digits :: nat where
  "max_str_digits = 4300"

definition py_int :: "string \<Rightarrow> int option" where
  "py_int s =
     (let t = int_strip s;
          neg = (case t of c # _ \<Rightarrow> c = CHR ''-'' | [] \<Rightarrow> False);
          body = (case t of c # r \<Rightarrow> (if c = CHR ''-'' \<or> c = CHR ''+'' then r else t) | [] \<Rightarrow> [])
      in if digits_ok body \<and> length (filter is_digit body) \<le> max_str_digits
         then Some (if neg then - digits_value body else digits_value body)
         else None)"

text \<open>Decimal rendering of an integer, as an f-string does it.\<close>

fun str_nat :: "nat \<Rightarrow> string" where
  "str_nat n = (if n < 10 then [char_of (48 + n)] else str_nat (n div 10) @ [char_of (48 + n mod 10)])"

definition str_int :: "int \<Rightarrow> string" where
  "str_int i = (if i < 0 then CHR ''-'' # str_nat (nat (- i)) else str_nat (nat i))"

section \<open>Configuration\<close>

text \<open>The fields of \<^verbatim>\<open>Settings\<close> (app/config.py) that the modelled code reads.\<close>

record settings =
  PORT :: int
  AUDIO_FILES_PATH :: string
  MAX_FILE_SIZE :: int
  ALLOWED_AUDIO_FORMATS :: "string list"

text \<open>The values \<^verbatim>\<open>Settings\<close> takes when no environment variable is set.\<close>

definition default_settings :: settings where
  "default_settings =
     \<lparr>PORT = 8000, AUDIO_FILES_PATH = ''./audio_files'', MAX_FILE_SIZE = 10485760,
      ALLOWED_AUDIO_FORMATS = [''mp3'', ''wav'', ''m4a'']\<rparr>"

section \<open>Helpers (app/utils/helpers.py)\<close>

subsection \<open>Language normalizer\<close>

definition language_map :: "(string \<times> string) list" where
  "language_map =
     [(''english'', ''en''), (''eng'', ''en''), (''arabic'', ''ar''), (''ara'', ''ar'')]"

definition normalize_language_code :: "string \<Rightarrow> string" where
  "normalize_language_code language =
     (let language = py_strip (py_lower language)
      in dict_get language_map language language)"

subsection \<open>File validator\<close>

text \<open>
  An \<^verbatim>\<open>UploadFile\<close>: the declared name, size and content type (each may be absent) and
  the bytes that \<^verbatim>\<open>read()\<close> returns.
\<close>

record upload_file =
  uf_filename :: "string option"
  uf_size :: "int option"
  uf_content_type :: "string option"
  uf_content :: string

definition size_message :: "settings \<Rightarrow> string" where
  "size_message cfg =
     ''File size exceeds maximum allowed size of '' @ str_int (MAX_FILE_SIZE cfg) @ '' bytes''"

definition format_message :: "settings \<Rightarrow> string" where
  "format_message cfg =
     ''File format not allowed. Allowed formats: '' @ py_join '', '' (ALLOWED_AUDIO_FORMATS cfg)"

definition file_extension_of :: "string \<Rightarrow> string" where
  "file_extension_of name = py_lower (last (py_split CHR ''.'' name))"

text \<open>
  \<^verbatim>\<open>file.size and file.size > MAX\<close>, \<^verbatim>\<open>not file.filename\<close> and
  \<^verbatim>\<open>file.content_type and not ...startswith('audio/')\<close> are truthiness tests: an absent
  value, the number 0 and the empty string are all false.
\<close>

definition validate_audio_file :: "settings \<Rightarrow> upload_file \<Rightarrow> bool \<times> string option" where
  "validate_audio_file cfg file =
     (if (case uf_size file of None \<Rightarrow> False | Some n \<Rightarrow> n \<noteq> 0 \<and> n > MAX_FILE_SIZE cfg)
      then (False, Some (size_message cfg))
      else (case uf_filename file of
              None \<Rightarrow> (False, Some ''No filename provided'')
            | Some name \<Rightarrow>
                if name = [] then (False, Some ''No filename provided'')
                else if file_extension_of name \<notin> set (ALLOWED_AUDIO_FORMATS cfg)
                then (False, Some (format_message cfg))
                else if (case uf_content_type file of
                           None \<Rightarrow> False
                         | Some ct \<Rightarrow> ct \<noteq> [] \<and> \<not> prefix ''audio/'' ct)
                then (False, Some ''File is not an audio file'')
                else (True, None)))"

definition generate_file_url :: "settings \<Rightarrow> string \<Rightarrow> string" where
  "generate_file_url cfg name =
     (''http://localhost:'' @ str_int (PORT cfg)) @ ''/audio_files/'' @ name"

subsection \<open>File persister\<close>

text \<open>
  The file system the persister writes to: the files by path, and for each kind of call
  the paths on which the operating system refuses it (permission denied, disk full, ...).
\<close>

datatype py_error = OSError | InvalidId | ValidationError | DuplicateKeyError | ValueError | TypeError

record file_system =
  fs_files :: "string \<rightharpoonup> string"
  fs_mkdir_fails :: "string \<Rightarrow> bool"
  fs_open_fails :: "string \<Rightarrow> bool"
  fs_write_fails :: "string \<Rightarrow> bool"
  fs_stat_fails :: "string \<Rightarrow> bool"
  fs_remove_fails :: "string \<Rightarrow> bool"

definition os_path_join :: "string \<Rightarrow> string \<Rightarrow> string" where
  "os_path_join a b =
     (if prefix ''/'' b then b
      else if a = [] \<or> last a = CHR ''/'' then a @ b
      else a @ ''/'' @ b)"

definition os_path_exists :: "file_system \<Rightarrow> string \<Rightarrow> bool" where
  "os_path_exists fs p = (\<not> fs_stat_fails fs p \<and> fs_files fs p \<noteq> None)"

definition os_path_getsize :: "file_system \<Rightarrow> string \<Rightarrow> py_error + int" where
  "os_path_getsize fs p =
     (if fs_stat_fails fs p then Inl OSError
      else (case fs_files fs p of None \<Rightarrow> Inl OSError | Some bs \<Rightarrow> Inr (int (length bs))))"

definition os_remove :: "file_system \<Rightarrow> string \<Rightarrow> (py_error + unit) \<times> file_system" where
  "os_remove fs p =
     (if fs_remove_fails fs p \<or> fs_files fs p = None then (Inl OSError, fs)
      else (Inr (), fs\<lparr>fs_files := (fs_files fs)(p := None)\<rparr>))"

text \<open>
  \<^verbatim>\<open>save_uploaded_file\<close>: create the directory, open the joined path for writing (which
  empties the file), write the whole content.  Any exception is logged and raised again;
  the file system keeps what was done before the failure.
\<close>

definition save_uploaded_file ::
  "settings \<Rightarrow> file_system \<Rightarrow> upload_file \<Rightarrow> string \<Rightarrow> (py_error + string) \<times> file_system" where
  "save_uploaded_file cfg fs upload name =
     (if fs_mkdir_fails fs (AUDIO_FILES_PATH cfg) then (Inl OSError, fs)
      else let file_path = os_path_join (AUDIO_FILES_PATH cfg) name in
        if fs_open_fails fs file_path then (Inl OSError, fs)
        else if fs_write_fails fs file_path
        then (Inl OSError, fs\<lparr>fs_files := (fs_files fs)(file_path \<mapsto> [])\<rparr>)
        else (Inr file_path, fs\<lparr>fs_files := (fs_files fs)(file_path \<mapsto> uf_content upload)\<rparr>))"

text \<open>\<^verbatim>\<open>get_file_size\<close>: the \<^verbatim>\<open>except\<close> branch logs the error and returns 0.\<close>

definition get_file_size :: "file_system \<Rightarrow> string \<Rightarrow> int" where
  "get_file_size fs file_path =
     (case os_path_getsize fs file_path of Inr n \<Rightarrow> n | Inl e \<Rightarrow> 0)"

section \<open>Models (app/models/audio.py)\<close>

text \<open>
  The two field validators of \<^verbatim>\<open>AudioFileBase\<close>.  A validator that raises makes the
  construction of the model fail with a validation error.
\<close>

definition allowed_languages :: "string list" where
  "allowed_languages = [''en'', ''ar'', ''english'', ''arabic'']"

definition validate_language :: "string \<Rightarrow> py_error + string" where
  "validate_language v =
     (if py_lower v \<notin> set allowed_languages then Inl ValidationError else Inr (py_lower v))"

definition allowed_formats :: "string list" where
  "allowed_formats = [''mp3'', ''wav'', ''m4a'', ''ogg'']"

definition validate_format :: "string \<Rightarrow> py_error + string" where
  "validate_format v =
     (if py_lower v \<notin> set allowed_formats then Inl ValidationError else Inr (py_lower v))"

record audio_file_create =
  afc_language :: string
  afc_filename :: string
  afc_url :: string
  afc_file_size :: int
  afc_duration :: "real option"
  afc_format :: string

text \<open>The constructor \<^verbatim>\<open>AudioFileCreate(...)\<close>: both validators run on the arguments.\<close>

definition AudioFileCreate ::
  "string \<Rightarrow> string \<Rightarrow> string \<Rightarrow> int \<Rightarrow> real option \<Rightarrow> string \<Rightarrow> py_error + audio_file_create" where
  "AudioFileCreate lang name url fsize dur fmt =
     (case validate_language lang of
        Inl e \<Rightarrow> Inl e
      | Inr lang' \<Rightarrow>
          (case validate_format fmt of
             Inl e \<Rightarrow> Inl e
           | Inr fmt' \<Rightarrow>
               Inr \<lparr>afc_language = lang', afc_filename = name, afc_url = url,
                    afc_file_size = fsize, afc_duration = dur, afc_format = fmt'\<rparr>))"

text \<open>\<^verbatim>\<open>AudioFileUpdate\<close>: every field optional, and no validator.\<close>

record audio_file_update =
  upd_language :: "string option"
  upd_filename :: "string option"
  upd_file_size :: "int option"
  upd_duration :: "real option"
  upd_format :: "string option"
  upd_url :: "string option"

text \<open>
  A stored document, which is also the shape of \<^verbatim>\<open>AudioFile\<close>.  The identifier is the
  24-digit lower-case hex rendering of the ObjectId; the timestamps are in microseconds.
\<close>

record audio_doc =
  doc_id :: string
  doc_language :: string
  doc_filename :: string
  doc_url :: string
  doc_file_size :: int
  doc_duration :: "real option"
  doc_format :: string
  doc_created_at :: int
  doc_updated_at :: int

text \<open>\<^verbatim>\<open>AudioFile(**doc)\<close>: the validators of the base model run on the stored fields.\<close>

definition AudioFile :: "audio_doc \<Rightarrow> py_error + audio_doc" where
  "AudioFile d =
     (case validate_language (doc_language d) of
        Inl e \<Rightarrow> Inl e
      | Inr lang' \<Rightarrow>
          (case validate_format (doc_format d) of
             Inl e \<Rightarrow> Inl e
           | Inr fmt' \<Rightarrow> Inr (d\<lparr>doc_language := lang', doc_format := fmt'\<rparr>)))"

text \<open>
  \<^verbatim>\<open>LanguageResponse\<close>.  The display name is kept as the list of its code points, since
  it can be the result of \<^verbatim>\<open>str.title\<close>.
\<close>

record language_response =
  lr_language :: string
  lr_language_name :: "nat list"
  lr_count :: nat

section \<open>The document store\<close>

text \<open>
  The collection \<^verbatim>\<open>audio_files\<close> is the list of its documents in insertion order.
  \<^verbatim>\<open>ObjectId(s)\<close> accepts a string of 24 characters that \<^verbatim>\<open>bytes.fromhex\<close> reads, and raises
  \<^verbatim>\<open>InvalidId\<close> on any other.  \<^verbatim>\<open>bytes.fromhex\<close> reads pairs of hex digits and skips the
  ASCII white space (characters 9 to 13 and 32) before a pair and at the end; \<open>None\<close> stands
  for its \<^verbatim>\<open>ValueError\<close>.  An ObjectId is kept as the lower-case hex digits of its bytes, as
  \<^verbatim>\<open>str\<close> renders it: two ObjectIds are equal when their bytes are, so the case of the
  digits does not matter, and a value of fewer than 12 bytes differs from every
  identifier of 12 bytes.
\<close>

definition is_hex :: "char \<Rightarrow> bool" where
  "is_hex c = (let n = (of_char c :: nat) in
     (48 \<le> n \<and> n \<le> 57) \<or> (65 \<le> n \<and> n \<le> 70) \<or> (97 \<le> n \<and> n \<le> 102))"

definition is_c_space :: "char \<Rightarrow> bool" where
  "is_c_space c = (let n = (of_char c :: nat) in (9 \<le> n \<and> n \<le> 13) \<or> n = 32)"

fun fromhex :: "string \<Rightarrow> string option" where
  "fromhex [] = Some []"
| "fromhex [c] = (if is_c_space c then Some [] else None)"
| "fromhex (c # d # ds) =
     (if is_c_space c then fromhex (d # ds)
      else if is_hex c \<and> is_hex d
      then (case fromhex ds of
              None \<Rightarrow> None
            | Some bytes \<Rightarrow> Some (lower_char c # lower_char d # bytes))
      else None)"

definition ObjectId :: "string \<Rightarrow> py_error + string" where
  "ObjectId s =
     (if length s = 24
      then (case fromhex s of None \<Rightarrow> Inl InvalidId | Some bytes \<Rightarrow> Inr bytes)
      else Inl InvalidId)"

definition find_one :: "(audio_doc \<Rightarrow> bool) \<Rightarrow> audio_doc list \<Rightarrow> audio_doc option" where
  "find_one q coll = List.find q coll"

text \<open>\<^verbatim>\<open>insert_one\<close>: the unique index on the identifier refuses a duplicate.\<close>

definition insert_one :: "audio_doc \<Rightarrow> audio_doc list \<Rightarrow> py_error + audio_doc list" where
  "insert_one d coll =
     (if doc_id d \<in> set (map doc_id coll) then Inl DuplicateKeyError else Inr (coll @ [d]))"

text \<open>
  \<^verbatim>\<open>update_one\<close> changes the first document that matches; the count returned is
  \<^verbatim>\<open>modified_count\<close>, which is 0 when nothing matches or the document stays as it was.
\<close>

fun update_one :: "(audio_doc \<Rightarrow> bool) \<Rightarrow> (audio_doc \<Rightarrow> audio_doc) \<Rightarrow> audio_doc list \<Rightarrow> audio_doc list \<times> nat" where
  "update_one q f [] = ([], 0)"
| "update_one q f (d # ds) =
     (if q d then (f d # ds, if f d = d then 0 else 1)
      else (case update_one q f ds of (ds', n) \<Rightarrow> (d # ds', n)))"

text \<open>\<^verbatim>\<open>delete_one\<close> removes the first document that matches and returns \<^verbatim>\<open>deleted_count\<close>.\<close>

fun delete_one :: "(audio_doc \<Rightarrow> bool) \<Rightarrow> audio_doc list \<Rightarrow> audio_doc list \<times> nat" where
  "delete_one q [] = ([], 0)"
| "delete_one q (d # ds) =
     (if q d then (ds, 1)
      else (case delete_one q ds of (ds', n) \<Rightarrow> (d # ds', n)))"

text \<open>
  The aggregation pipeline of \<^verbatim>\<open>get_available_languages\<close>: the \<^verbatim>\<open>$group\<close> stage yields
  one pair per distinct language with the number of its documents, the \<^verbatim>\<open>$sort\<close> stage
  orders the pairs by the language, ascending, comparing strings code point by code point.
\<close>

definition group_count :: "audio_doc list \<Rightarrow> (string \<times> nat) list" where
  "group_count coll =
     map (\<lambda>k. (k, length (filter (\<lambda>d. doc_language d = k) coll)))
       (remdups (map doc_language coll))"

definition sort_by_id :: "(string \<times> nat) list \<Rightarrow> (string \<times> nat) list" where
  "sort_by_id rs = sort_key fst rs"

section \<open>The asset service (app/services/audio_service.py)\<close>

definition audio_service_create_audio_file ::
  "audio_doc list \<Rightarrow> string \<Rightarrow> int \<Rightarrow> audio_file_create \<Rightarrow> (py_error + audio_doc) \<times> audio_doc list" where
  "audio_service_create_audio_file coll new_id now audio_data =
     (let audio_doc =
            \<lparr>doc_id = new_id, doc_language = afc_language audio_data,
             doc_filename = afc_filename audio_data, doc_url = afc_url audio_data,
             doc_file_size = afc_file_size audio_data, doc_duration = afc_duration audio_data,
             doc_format = afc_format audio_data, doc_created_at = now, doc_updated_at = now\<rparr>
      in case insert_one audio_doc coll of
           Inl e \<Rightarrow> (Inl e, coll)
         | Inr coll' \<Rightarrow>
             (case find_one (\<lambda>d. doc_id d = new_id) coll' of
                None \<Rightarrow> (Inl TypeError, coll')
              | Some created_doc \<Rightarrow> (AudioFile created_doc, coll')))"

definition audio_service_get_audio_by_language :: "audio_doc list \<Rightarrow> string \<Rightarrow> py_error + audio_doc option" where
  "audio_service_get_audio_by_language coll language =
     (let lang_code = py_lower language;
          lang_code = (if lang_code \<in> set [''english'', ''en''] then ''en''
                       else if lang_code \<in> set [''arabic'', ''ar''] then ''ar''
                       else lang_code)
      in case find_one (\<lambda>d. doc_language d = lang_code) coll of
           Some audio_doc \<Rightarrow> map_sum id Some (AudioFile audio_doc)
         | None \<Rightarrow> Inr None)"

definition language_names :: "(string \<times> nat list) list" where
  "language_names = [(''en'', code_points ''English''), (''ar'', code_points ''Arabic'')]"

definition audio_service_get_available_languages :: "audio_doc list \<Rightarrow> language_response list" where
  "audio_service_get_available_languages coll =
     map (\<lambda>(lang_code, n).
            \<lparr>lr_language = lang_code,
             lr_language_name = dict_get language_names lang_code (py_title lang_code),
             lr_count = n\<rparr>)
       (sort_by_id (group_count coll))"

text \<open>
  \<^verbatim>\<open>update_audio_file\<close>: the fields of the update that are not \<^verbatim>\<open>None\<close> are set, and
  \<^verbatim>\<open>updated_at\<close> always.  The store is changed before the updated document is read back
  and validated.
\<close>

definition apply_update :: "audio_file_update \<Rightarrow> int \<Rightarrow> audio_doc \<Rightarrow> audio_doc" where
  "apply_update u now d =
     d\<lparr>doc_language := (case upd_language u of Some v \<Rightarrow> v | None \<Rightarrow> doc_language d),
       doc_filename := (case upd_filename u of Some v \<Rightarrow> v | None \<Rightarrow> doc_filename d),
       doc_file_size := (case upd_file_size u of Some v \<Rightarrow> v | None \<Rightarrow> doc_file_size d),
       doc_duration := (case upd_duration u of Some v \<Rightarrow> Some v | None \<Rightarrow> doc_duration d),
       doc_format := (case upd_format u of Some v \<Rightarrow> v | None \<Rightarrow> doc_format d),
       doc_url := (case upd_url u of Some v \<Rightarrow> v | None \<Rightarrow> doc_url d),
       doc_updated_at := now\<rparr>"

definition audio_service_update_audio_file ::
  "audio_doc list \<Rightarrow> string \<Rightarrow> audio_file_update \<Rightarrow> int \<Rightarrow> (py_error + audio_doc option) \<times> audio_doc list" where
  "audio_service_update_audio_file coll audio_id update_data now =
     (case ObjectId audio_id of
        Inl e \<Rightarrow> (Inl e, coll)
      | Inr oid \<Rightarrow>
          (case update_one (\<lambda>d. doc_id d = oid) (apply_update update_data now) coll of
             (coll', modified_count) \<Rightarrow>
               if modified_count > 0
               then (case find_one (\<lambda>d. doc_id d = oid) coll' of
                       None \<Rightarrow> (Inl TypeError, coll')
                     | Some updated_doc \<Rightarrow> (map_sum id Some (AudioFile updated_doc), coll'))
               else (Inr None, coll')))"

definition audio_service_delete_audio_file ::
  "audio_doc list \<Rightarrow> string \<Rightarrow> py_error + (bool \<times> audio_doc list)" where
  "audio_service_delete_audio_file coll audio_id =
     (case ObjectId audio_id of
        Inl e \<Rightarrow> Inl e
      | Inr oid \<Rightarrow>
          (case delete_one (\<lambda>d. doc_id d = oid) coll of
             (coll', deleted_count) \<Rightarrow> Inr (deleted_count > 0, coll')))"

definition audio_service_get_audio_by_id :: "audio_doc list \<Rightarrow> string \<Rightarrow> py_error + audio_doc option" where
  "audio_service_get_audio_by_id coll audio_id =
     (case ObjectId audio_id of
        Inl e \<Rightarrow> Inl e
      | Inr oid \<Rightarrow>
          (case find_one (\<lambda>d. doc_id d = oid) coll of
             Some audio_doc \<Rightarrow> map_sum id Some (AudioFile audio_doc)
           | None \<Rightarrow> Inr None))"

section \<open>The route handlers (app/routers/audio.py)\<close>

text \<open>
  A handler either raises an \<^verbatim>\<open>HTTPException\<close> with a status and a detail, or returns its
  body with status 200.  The state a handler works on is the file system and the collection.
\<close>

datatype 'a response = HTTPException nat string | OK 'a

record app_state =
  st_fs :: file_system
  st_coll :: "audio_doc list"

definition get_audio_by_language :: "app_state \<Rightarrow> string \<Rightarrow> audio_doc response" where
  "get_audio_by_language st language =
     (let normalized_lang = normalize_language_code language
      in case audio_service_get_audio_by_language (st_coll st) normalized_lang of
           Inl e \<Rightarrow> HTTPException 500 ''Failed to retrieve audio file''
         | Inr None \<Rightarrow> HTTPException 404 (''No audio file found for language: '' @ language)
         | Inr (Some audio_file) \<Rightarrow> OK audio_file)"

text \<open>
  \<^verbatim>\<open>upload_audio_file\<close>.  The random token \<^verbatim>\<open>uuid.uuid4().hex\<close>, the identifier the store
  assigns and the clock reading are inputs of the model.  Every exception other than the
  400 of the validator ends in the 500 of the last \<^verbatim>\<open>except\<close> clause.
\<close>

definition upload_audio_file ::
  "settings \<Rightarrow> app_state \<Rightarrow> upload_file \<Rightarrow> string \<Rightarrow> string \<Rightarrow> string \<Rightarrow> int \<Rightarrow> audio_doc response \<times> app_state" where
  "upload_audio_file cfg st file language token new_id now =
     (case validate_audio_file cfg file of
        (is_valid, error_message) \<Rightarrow>
          if \<not> is_valid
          then (HTTPException 400 (case error_message of Some m \<Rightarrow> m | None \<Rightarrow> []), st)
          else
            (case uf_filename file of
               None \<Rightarrow> (HTTPException 500 ''Failed to upload audio file'', st)
             | Some name \<Rightarrow>
                 let normalized_lang = normalize_language_code language;
                     file_extension = file_extension_of name;
                     unique_filename = normalized_lang @ ''_'' @ token @ ''.'' @ file_extension
                 in (case save_uploaded_file cfg (st_fs st) file unique_filename of
                       (Inl e, fs') \<Rightarrow>
                         (HTTPException 500 ''Failed to upload audio file'', st\<lparr>st_fs := fs'\<rparr>)
                     | (Inr file_path, fs') \<Rightarrow>
                         let file_size = get_file_size fs' file_path;
                             file_url = generate_file_url cfg unique_filename
                         in (case AudioFileCreate normalized_lang unique_filename file_url
                                    file_size None file_extension of
                               Inl e \<Rightarrow>
                                 (HTTPException 500 ''Failed to upload audio file'',
                                  st\<lparr>st_fs := fs'\<rparr>)
                             | Inr audio_data \<Rightarrow>
                                 (case audio_service_create_audio_file (st_coll st) new_id now
                                         audio_data of
                                    (Inl e, coll') \<Rightarrow>
                                      (HTTPException 500 ''Failed to upload audio file'',
                                       \<lparr>st_fs = fs', st_coll = coll'\<rparr>)
                                  | (Inr audio_file, coll') \<Rightarrow>
                                      (OK audio_file, \<lparr>st_fs = fs', st_coll = coll'\<rparr>))))))"

text \<open>
  \<^verbatim>\<open>delete_audio_file\<close>: look the record up, delete it from the store, then remove the
  file if it exists.  The 404s are raised as \<^verbatim>\<open>HTTPException\<close> and pass through; any other
  exception, the one of \<^verbatim>\<open>os.remove\<close> included, reaches the last \<^verbatim>\<open>except\<close> clause.
\<close>

definition delete_audio_file ::
  "settings \<Rightarrow> app_state \<Rightarrow> string \<Rightarrow> string response \<times> app_state" where
  "delete_audio_file cfg st audio_id =
     (case audio_service_get_audio_by_id (st_coll st) audio_id of
        Inl e \<Rightarrow> (HTTPException 500 ''Failed to delete audio file'', st)
      | Inr None \<Rightarrow> (HTTPException 404 ''Audio file not found'', st)
      | Inr (Some audio_file) \<Rightarrow>
          (case audio_service_delete_audio_file (st_coll st) audio_id of
             Inl e \<Rightarrow> (HTTPException 500 ''Failed to delete audio file'', st)
           | Inr (deleted, coll') \<Rightarrow>
               let st1 = st\<lparr>st_coll := coll'\<rparr> in
               if \<not> deleted then (HTTPException 404 ''Audio file not found'', st1)
               else
                 let file_path = os_path_join (AUDIO_FILES_PATH cfg) (doc_filename audio_file)
                 in if os_path_exists (st_fs st1) file_path
                    then (case os_remove (st_fs st1) file_path of
                            (Inl e, fs') \<Rightarrow>
                              (HTTPException 500 ''Failed to delete audio file'',
                               st1\<lparr>st_fs := fs'\<rparr>)
                          | (Inr u, fs') \<Rightarrow>
                              (OK ''Audio file deleted successfully'', st1\<lparr>st_fs := fs'\<rparr>))
                    else (OK ''Audio file deleted successfully'', st1)))"

section \<open>The admission guard (app/middleware/security.py)\<close>

text \<open>
  What the guard reads of a request: whether the ASGI scope is of type \<^verbatim>\<open>http\<close>, the
  client address (absent when the server gives none), the headers with their names in
  lower case, and the reading of \<^verbatim>\<open>time.time()\<close> taken while the request is logged.
\<close>

record request =
  req_is_http :: bool
  req_client :: "string option"
  req_headers :: "(string \<times> string) list"
  req_time :: real

record guard_state =
  request_count :: "string \<rightharpoonup> real list"
  blocked_ips :: "string set"

text \<open>The state of a fresh \<^verbatim>\<open>SecurityMiddleware\<close>, as \<^verbatim>\<open>__init__\<close> leaves it.\<close>

definition guard_init :: guard_state where
  "guard_init = \<lparr>request_count = Map.empty, blocked_ips = {}\<rparr>"

datatype guard_outcome = Respond nat | CallApp

definition get_remote_address :: "request \<Rightarrow> string" where
  "get_remote_address r =
     (case req_client r of
        None \<Rightarrow> ''127.0.0.1''
      | Some host \<Rightarrow> if host = [] then ''127.0.0.1'' else host)"

definition header_get :: "request \<Rightarrow> string \<Rightarrow> string option" where
  "header_get r name = map_of (req_headers r) (py_lower name)"

definition suspicious_headers :: "string list" where
  "suspicious_headers =
     [''x-forwarded-for'', ''x-real-ip'', ''x-cluster-client-ip'',
      ''x-forwarded'', ''x-forwarded-proto'', ''x-forwarded-host'']"

definition injection_patterns :: "string list" where
  "injection_patterns = [''<script'', ''javascript:'', ''data:'']"

text \<open>The \<^verbatim>\<open>for header in suspicious_headers\<close> loop: true when it returns \<^verbatim>\<open>False\<close> early.\<close>

fun header_loop :: "request \<Rightarrow> string list \<Rightarrow> bool" where
  "header_loop r [] = False"
| "header_loop r (header # rest) =
     (case header_get r header of
        None \<Rightarrow> header_loop r rest
      | Some v \<Rightarrow>
          if list_ex (\<lambda>pattern. py_contains pattern (py_lower v)) injection_patterns then True
          else header_loop r rest)"

text \<open>
  The body of the \<^verbatim>\<open>try\<close> in \<^verbatim>\<open>_validate_request\<close>: it returns a boolean, or raises when
  \<^verbatim>\<open>int(content_length)\<close> does.  The size limit is the literal \<^verbatim>\<open>10 * 1024 * 1024\<close>.
\<close>

definition validate_request_body :: "request \<Rightarrow> py_error + bool" where
  "validate_request_body r =
     (if header_loop r suspicious_headers then Inr False
      else (case header_get r ''content-length'' of
              None \<Rightarrow> Inr True
            | Some content_length \<Rightarrow>
                if content_length = [] then Inr True
                else (case py_int content_length of
                        None \<Rightarrow> Inl ValueError
                      | Some n \<Rightarrow> if n > 10 * 1024 * 1024 then Inr False else Inr True)))"

text \<open>\<^verbatim>\<open>_validate_request\<close>: the \<^verbatim>\<open>except\<close> clause turns any exception into \<^verbatim>\<open>False\<close>.\<close>

definition validate_request :: "request \<Rightarrow> bool" where
  "validate_request r = (case validate_request_body r of Inl e \<Rightarrow> False | Inr b \<Rightarrow> b)"

text \<open>
  \<^verbatim>\<open>_log_request\<close>: drop the client's time stamps that are 60 seconds old or older, append
  the current one, and block the client when more than 100 remain.
\<close>

definition log_request :: "guard_state \<Rightarrow> request \<Rightarrow> guard_state" where
  "log_request s r =
     (let client_ip = get_remote_address r;
          current_time = req_time r;
          old = (case request_count s client_ip of None \<Rightarrow> [] | Some ts \<Rightarrow> ts);
          kept = filter (\<lambda>t. current_time - t < 60) old @ [current_time];
          s' = s\<lparr>request_count := (request_count s)(client_ip \<mapsto> kept)\<rparr>
      in if length kept > 100
         then s'\<lparr>blocked_ips := insert client_ip (blocked_ips s')\<rparr>
         else s')"

text \<open>
  \<^verbatim>\<open>SecurityMiddleware.__call__\<close>: the response the guard sends itself, or the hand-over
  to the application, and the state afterwards.
\<close>

definition guard_call :: "guard_state \<Rightarrow> request \<Rightarrow> guard_outcome \<times> guard_state" where
  "guard_call s r =
     (if req_is_http r
      then (let client_ip = get_remote_address r
            in if client_ip \<in> blocked_ips s then (Respond 403, s)
               else if \<not> validate_request r then (Respond 400, s)
               else (CallApp, log_request s r))
      else (CallApp, s))"


section \<open>The validator's checks as the specification lists them\<close>

text \<open>
  The specification gives the validator as four checks in a fixed order, each with the
  reason it reports: the declared size against the maximum, the presence of a file name,
  the extension against the allowed set, the declared content type.  \<open>validate_checks\<close>
  is that list (a check is \<open>True\<close> when it fails), and \<open>first_failure\<close> reports the first
  failing check of a list, or success when there is none.
\<close>

definition validate_checks :: "settings \<Rightarrow> upload_file \<Rightarrow> (bool \<times> string) list" where
  "validate_checks cfg file =
     [((case uf_size file of None \<Rightarrow> False | Some n \<Rightarrow> n \<noteq> 0 \<and> n > MAX_FILE_SIZE cfg),
       size_message cfg),
      ((case uf_filename file of None \<Rightarrow> True | Some name \<Rightarrow> name = []),
       ''No filename provided''),
      ((case uf_filename file of
          None \<Rightarrow> True
        | Some name \<Rightarrow> file_extension_of name \<notin> set (ALLOWED_AUDIO_FORMATS cfg)),
       format_message cfg),
      ((case uf_content_type file of
          None \<Rightarrow> False
        | Some ct \<Rightarrow> ct \<noteq> [] \<and> \<not> prefix ''audio/'' ct),
       ''File is not an audio file'')]"

definition first_failure :: "(bool \<times> string) list \<Rightarrow> bool \<times> string option" where
  "first_failure checks =
     (case List.find fst checks of
        None \<Rightarrow> (True, None)
      | Some (failed, reason) \<Rightarrow> (False, Some reason))"


section \<open>Auxiliary notions for the admission guard\<close>




section \<open>Auxiliary notions for the asset service\<close>

text \<open>The document that \<open>create_audio_file\<close> builds from the data of an \<open>AudioFileCreate\<close>.\<close>

definition created_doc :: "string \<Rightarrow> int \<Rightarrow> audio_file_create \<Rightarrow> audio_doc" where
  "created_doc new_id now audio_data =
     \<lparr>doc_id = new_id, doc_language = afc_language audio_data,
      doc_filename = afc_filename audio_data, doc_url = afc_url audio_data,
      doc_file_size = afc_file_size audio_data, doc_duration = afc_duration audio_data,
      doc_format = afc_format audio_data, doc_created_at = now, doc_updated_at = now\<rparr>"

section \<open>Example data\<close>

text \<open>A stored record of a 12-byte mp3 upload with the given identifier and language.\<close>

definition example_doc :: "string \<Rightarrow> string \<Rightarrow> audio_doc" where
  "example_doc oid lang =
     \<lparr>doc_id = oid, doc_language = lang, doc_filename = lang @ ''_'' @ oid @ ''.mp3'',
      doc_url = ''http://localhost:8000/audio_files/'' @ lang @ ''_'' @ oid @ ''.mp3'',
      doc_file_size = 12, doc_duration = None, doc_format = ''mp3'',
      doc_created_at = 0, doc_updated_at = 0\<rparr>"

definition three_en_two_ar :: "audio_doc list" where
  "three_en_two_ar =
     [example_doc ''65f0a1b2c3d4e5f601020301'' ''en'',
      example_doc ''65f0a1b2c3d4e5f601020302'' ''ar'',
      example_doc ''65f0a1b2c3d4e5f601020303'' ''en'',
      example_doc ''65f0a1b2c3d4e5f601020304'' ''en'',
      example_doc ''65f0a1b2c3d4e5f601020305'' ''ar'']"

text \<open>
  A file system on which every call succeeds except the removals the second argument
  names; an identifier, the file of its record, and a state whose only record has that
  file on disk while the operating system refuses to remove anything.
\<close>

definition example_fs :: "(string \<rightharpoonup> string) \<Rightarrow> (string \<Rightarrow> bool) \<Rightarrow> file_system" where
  "example_fs files remove_fails =
     \<lparr>fs_files = files, fs_mkdir_fails = (\<lambda>p. False), fs_open_fails = (\<lambda>p. False),
      fs_write_fails = (\<lambda>p. False), fs_stat_fails = (\<lambda>p. False),
      fs_remove_fails = remove_fails\<rparr>"

definition example_id :: string where
  "example_id = ''65f0a1b2c3d4e5f601020301''"

definition example_path :: string where
  "example_path = ''./audio_files/en_65f0a1b2c3d4e5f601020301.mp3''"

definition stuck_file_state :: app_state where
  "stuck_file_state =
     \<lparr>st_fs = example_fs [example_path \<mapsto> ''ID3 12 bytes''] (\<lambda>p. True),
      st_coll = [example_doc example_id ''en'']\<rparr>"

text \<open>
  A 12-byte mp3 upload, a token as \<^verbatim>\<open>uuid.uuid4().hex\<close> yields one, an empty application state
  on a file system without failures, the data of \<^verbatim>\<open>AudioFileCreate(language='English', ...)\<close>
  and an update that sets only the language.
\<close>

definition example_upload :: upload_file where
  "example_upload =
     \<lparr>uf_filename = Some ''hello.mp3'', uf_size = Some 12,
      uf_content_type = Some ''audio/mpeg'', uf_content = ''ID3 12 bytes''\<rparr>"

definition example_token :: string where
  "example_token = ''0123456789abcdef0123456789abcdef''"

definition empty_state :: app_state where
  "empty_state = \<lparr>st_fs = example_fs Map.empty (\<lambda>p. False), st_coll = []\<rparr>"

definition english_data :: audio_file_create where
  "english_data =
     \<lparr>afc_language = ''english'', afc_filename = ''sample_english.mp3'',
      afc_url = ''http://localhost:8000/audio_files/sample_english.mp3'',
      afc_file_size = 12, afc_duration = None, afc_format = ''mp3''\<rparr>"

definition language_update :: "string \<Rightarrow> audio_file_update" where
  "language_update lang =
     \<lparr>upd_language = Some lang, upd_filename = None, upd_file_size = None,
      upd_duration = None, upd_format = None, upd_url = None\<rparr>"

definition url_update :: "string \<Rightarrow> audio_file_update" where
  "url_update url =
     \<lparr>upd_language = None, upd_filename = None, upd_file_size = None,
      upd_duration = None, upd_format = None, upd_url = Some url\<rparr>"

text \<open>
  The file name the upload handler generates for the language \<^verbatim>\<open>../../tmp/x\<close> with the
  example token, and the path the persister joins from it.
\<close>

definition traversal_name :: string where
  "traversal_name = ''../../tmp/x_0123456789abcdef0123456789abcdef.mp3''"

definition traversal_path :: string where
  "traversal_path = ''./audio_files/../../tmp/x_0123456789abcdef0123456789abcdef.mp3''"

text \<open>What deleting the record \<open>example_id\<close> from a collection returns.\<close>

definition the_deleted :: "audio_doc list \<Rightarrow> bool \<times> audio_doc list" where
  "the_deleted coll =
     (case delete_one (\<lambda>d. doc_id d = example_id) coll of
        (coll', deleted_count) \<Rightarrow> (deleted_count > 0, coll'))"



section \<open>Properties of the string primitives\<close>

lemma of_char_lower: "is_upper c \<Longrightarrow> (of_char (lower_char c) :: nat) = of_char c + 32"
  unfolding lower_char_def is_upper_def Let_def
  by auto  

lemma lower_not_upper: "\<not> is_upper (lower_char c)"
proof (cases "is_upper c")
  case True
  then show ?thesis using of_char_lower[OF True] unfolding is_upper_def Let_def by auto
next
  case False
  then show ?thesis by (simp add: lower_char_def)
qed

lemma lower_char_idem: "lower_char (lower_char c) = lower_char c"
  using lower_not_upper[of c] by (simp add: lower_char_def)

lemma is_space_lower_char: "is_space (lower_char c) = is_space c"
proof (cases "is_upper c")
  case True
  then show ?thesis using of_char_lower[OF True] unfolding is_upper_def is_space_def Let_def by auto
next
  case False
  then show ?thesis by (simp add: lower_char_def)
qed

lemma py_lower_idem: "py_lower (py_lower s) = py_lower s"
  by (simp add: py_lower_def lower_char_idem)

lemma py_lower_strip: "py_lower (py_strip s) = py_strip (py_lower s)"
proof -
  have c: "is_space \<circ> lower_char = is_space" by (rule ext) (simp add: is_space_lower_char)
  show ?thesis
    by (simp add: py_lower_def py_strip_def rev_map dropWhile_map c)
qed

lemma dropWhile_rev_dropWhile:
  "dropWhile P (rev (dropWhile P (rev (dropWhile P s)))) = rev (dropWhile P (rev (dropWhile P s)))"
proof (cases "dropWhile P s")
  case Nil
  show ?thesis unfolding Nil by simp
next
  case (Cons x t)
  then have nx: "\<not> P x" using hd_dropWhile[of P s] by (metis list.sel(1) list.distinct(1))
  have "dropWhile P (rev t @ [x]) \<noteq> []" using nx by (simp add: dropWhile_append)
  moreover have "last (dropWhile P (rev t @ [x])) = x"
    using nx by (induction "rev t" arbitrary: t) (auto simp: dropWhile_append)
  ultimately obtain u where u: "rev (dropWhile P (rev t @ [x])) = x # u"
    by (metis last_rev list.collapse rev_is_Nil_conv hd_rev rev_rev_ident)
  show ?thesis unfolding Cons using u nx by simp
qed

lemma py_strip_idem: "py_strip (py_strip s) = py_strip s"
  unfolding py_strip_def by (simp add: dropWhile_rev_dropWhile dropWhile_idem)


lemma py_strip_lower_fixed: "py_strip (py_lower (py_strip (py_lower x))) = py_strip (py_lower x)"
  by (simp add: py_lower_strip py_lower_idem py_strip_idem)

lemma normalize_language_code_cases:
  "normalize_language_code x =
     (let y = py_strip (py_lower x)
      in if y \<in> {''english'', ''eng''} then ''en''
         else if y \<in> {''arabic'', ''ara''} then ''ar'' else y)"
  by (simp add: normalize_language_code_def Let_def dict_get_def language_map_def)

lemma normalize_language_code_codes:
  "normalize_language_code ''en'' = ''en''" "normalize_language_code ''ar'' = ''ar''"
  by (simp_all add: normalize_language_code_cases py_strip_def py_lower_def lower_char_def
      is_upper_def is_space_def)

lemma dropWhile_hd: "xs = [] \<or> \<not> P (hd xs) \<Longrightarrow> dropWhile P xs = xs"
  by (cases xs) auto

lemma py_strip_pad:
  assumes "list_all is_space l" "list_all is_space r"
  shows "py_strip (l @ x @ r) = py_strip x"
proof -
  have l: "dropWhile is_space (l @ x @ r) = dropWhile is_space (x @ r)"
    using assms(1) by (simp add: dropWhile_append2 list_all_iff)
  show ?thesis
  proof (cases "list_all is_space x")
    case True
    then have a: "dropWhile is_space (x @ r) = []" and b: "dropWhile is_space x = []"
      using assms(2) by (simp_all add: list_all_iff)
    show ?thesis unfolding py_strip_def l a b by simp
  next
    case False
    then obtain a where "a \<in> set x" "\<not> is_space a"
      by (auto simp: list_all_iff)
    then have "dropWhile is_space (x @ r) = dropWhile is_space x @ r"
      by (rule dropWhile_append1)
    moreover have "dropWhile is_space (rev r @ rev (dropWhile is_space x))
        = dropWhile is_space (rev (dropWhile is_space x))"
      using assms(2) by (intro dropWhile_append2) (simp add: list_all_iff)
    ultimately show ?thesis unfolding py_strip_def l by simp
  qed
qed

lemma py_strip_trimmed:
  assumes "x = [] \<or> (\<not> is_space (hd x) \<and> \<not> is_space (last x))"
  shows "py_strip x = x"
proof -
  have a: "dropWhile is_space x = x"
    using assms by (intro dropWhile_hd) auto
  have "rev x = [] \<or> \<not> is_space (hd (rev x))"
    using assms by (auto simp: hd_rev)
  then have b: "dropWhile is_space (rev x) = rev x"
    by (rule dropWhile_hd)
  show ?thesis unfolding py_strip_def a b by simp
qed

lemma py_strip_ends:
  assumes "py_strip s \<noteq> []"
  shows "\<not> is_space (hd (py_strip s))" "\<not> is_space (last (py_strip s))"
proof -
  let ?d = "dropWhile is_space (rev (dropWhile is_space s))"
  have ne: "?d \<noteq> []" using assms by (simp add: py_strip_def)
  have "\<not> is_space (hd ?d)" using ne hd_dropWhile by blast
  then show "\<not> is_space (last (py_strip s))"
    using ne by (simp add: py_strip_def last_rev)
  have "dropWhile is_space (py_strip s) = py_strip s"
    unfolding py_strip_def by (rule dropWhile_rev_dropWhile)
  then show "\<not> is_space (hd (py_strip s))"
    using assms hd_dropWhile [of is_space "py_strip s"] by simp
qed

lemma py_lower_no_upper: "\<not> list_ex is_upper (py_lower s)"
  by (simp add: py_lower_def list_ex_iff lower_not_upper)

lemma py_lower_trimmed:
  assumes "x = [] \<or> (\<not> is_space (hd x) \<and> \<not> is_space (last x))"
  shows "py_strip (py_lower x) = py_lower x"
proof (rule py_strip_trimmed)
  show "py_lower x = [] \<or> (\<not> is_space (hd (py_lower x)) \<and> \<not> is_space (last (py_lower x)))"
    using assms by (cases "x = []") (simp_all add: py_lower_def hd_map last_map is_space_lower_char)
qed

lemma py_lower_pad:
  "list_all is_space l \<Longrightarrow> list_all is_space (py_lower l)"
  by (simp add: py_lower_def list_all_iff is_space_lower_char)

lemma normalize_language_code_pad:
  assumes "list_all is_space l" "list_all is_space r"
  shows "normalize_language_code (l @ x @ r) = normalize_language_code x"
proof -
  have "py_strip (py_lower (l @ x @ r)) = py_strip (py_lower l @ py_lower x @ py_lower r)"
    by (simp add: py_lower_def)
  also have "\<dots> = py_strip (py_lower x)"
    using assms by (intro py_strip_pad py_lower_pad)
  finally show ?thesis by (simp add: normalize_language_code_def)
qed

lemma normalize_language_code_shape:
  "\<not> list_ex is_upper (normalize_language_code x)"
  "normalize_language_code x \<noteq> [] \<Longrightarrow>
     \<not> is_space (hd (normalize_language_code x)) \<and> \<not> is_space (last (normalize_language_code x))"
proof -
  define y where "y = py_strip (py_lower x)"
  have nx: "normalize_language_code x =
      (if y \<in> {''english'', ''eng''} then ''en''
       else if y \<in> {''arabic'', ''ara''} then ''ar'' else y)"
    unfolding y_def using normalize_language_code_cases [of x] by (simp add: Let_def)
  have yl: "y = py_lower (py_strip x)" by (simp add: y_def py_lower_strip)
  have up: "\<not> list_ex is_upper y" unfolding yl by (rule py_lower_no_upper)
  have codes: "\<not> list_ex is_upper ''en''" "\<not> list_ex is_upper ''ar''"
    "\<not> is_space (hd ''en'') \<and> \<not> is_space (last ''en'')"
    "\<not> is_space (hd ''ar'') \<and> \<not> is_space (last ''ar'')"
    by (simp_all add: is_upper_def is_space_def)
  show "\<not> list_ex is_upper (normalize_language_code x)"
  proof (cases "y \<in> {''english'', ''eng''}")
    case True
    then have e: "normalize_language_code x = ''en''" using nx by simp
    show ?thesis unfolding e by (rule codes(1))
  next
    case False
    show ?thesis
    proof (cases "y \<in> {''arabic'', ''ara''}")
      case True
      then have e: "normalize_language_code x = ''ar''" using nx False by simp
      show ?thesis unfolding e by (rule codes(2))
    next
      case no_alias: False
      then have e: "normalize_language_code x = y" using nx False by simp
      show ?thesis unfolding e by (rule up)
    qed
  qed
  show "\<not> is_space (hd (normalize_language_code x)) \<and> \<not> is_space (last (normalize_language_code x))"
    if "normalize_language_code x \<noteq> []"
  proof (cases "y \<in> {''english'', ''eng''}")
    case True
    then have e: "normalize_language_code x = ''en''" using nx by simp
    show ?thesis unfolding e by (rule codes(3))
  next
    case False
    show ?thesis
    proof (cases "y \<in> {''arabic'', ''ara''}")
      case True
      then have e: "normalize_language_code x = ''ar''" using nx False by simp
      show ?thesis unfolding e by (rule codes(4))
    next
      case no_alias: False
      then have e: "normalize_language_code x = y" using nx False by simp
      then have "py_strip (py_lower x) \<noteq> []" using that by (simp add: y_def)
      then show ?thesis unfolding e y_def using py_strip_ends by blast
    qed
  qed
qed

section \<open>Evaluating the string primitives on literals\<close>

lemmas py_eval = py_strip_def py_lower_def lower_char_def is_upper_def is_space_def
  char_of_eq_iff is_digit_def digit_val_def int_strip_def is_int_space_def

lemma py_int_Nil: "py_int [] = None"
  by (simp add: py_int_def int_strip_def)

section \<open>The store, the persister and the delete handler\<close>

lemma ObjectId_example: "ObjectId example_id = Inr example_id"
  by (simp add: ObjectId_def example_id_def is_hex_def is_c_space_def py_eval)





lemma AudioFile_example: "AudioFile (example_doc oid ''en'') = Inr (example_doc oid ''en'')"
  by (simp add: AudioFile_def example_doc_def validate_language_def validate_format_def
      allowed_languages_def allowed_formats_def py_eval)

lemma get_example: "audio_service_get_audio_by_id [example_doc example_id ''en''] example_id
    = Inr (Some (example_doc example_id ''en''))"
  by (simp add: audio_service_get_audio_by_id_def ObjectId_example find_one_def AudioFile_example)
     (simp add: example_doc_def)

lemma del_example: "audio_service_delete_audio_file [example_doc example_id ''en''] example_id
    = Inr (True, [])"
  by (simp add: audio_service_delete_audio_file_def ObjectId_example)
     (simp add: example_doc_def)

lemma path_example: "os_path_join (AUDIO_FILES_PATH default_settings) (doc_filename (example_doc example_id ''en'')) = example_path"
  by (simp add: os_path_join_def default_settings_def example_doc_def example_id_def example_path_def)

lemma delete_after_store_delete:
  assumes "audio_service_get_audio_by_id (st_coll st) audio_id = Inr (Some audio_file)"
    and "audio_service_delete_audio_file (st_coll st) audio_id = Inr (True, coll')"
    and "file_path = os_path_join (AUDIO_FILES_PATH cfg) (doc_filename audio_file)"
  shows "delete_audio_file cfg st audio_id =
     (if os_path_exists (st_fs st) file_path
      then (if fs_remove_fails (st_fs st) file_path
            then (HTTPException 500 ''Failed to delete audio file'', st\<lparr>st_coll := coll'\<rparr>)
            else (OK ''Audio file deleted successfully'',
                  st\<lparr>st_coll := coll',
                     st_fs := (st_fs st)\<lparr>fs_files := (fs_files (st_fs st))(file_path := None)\<rparr>\<rparr>))
      else (OK ''Audio file deleted successfully'', st\<lparr>st_coll := coll'\<rparr>))"
  using assms
  by (simp add: delete_audio_file_def Let_def os_remove_def os_path_exists_def)



lemma save_ok:
  assumes "\<not> fs_mkdir_fails fs (AUDIO_FILES_PATH cfg)"
   "\<not> fs_open_fails fs (os_path_join (AUDIO_FILES_PATH cfg) name)"
   "\<not> fs_write_fails fs (os_path_join (AUDIO_FILES_PATH cfg) name)"
  shows "save_uploaded_file cfg fs upload name =
     (Inr (os_path_join (AUDIO_FILES_PATH cfg) name),
      fs\<lparr>fs_files := (fs_files fs)(os_path_join (AUDIO_FILES_PATH cfg) name \<mapsto> uf_content upload)\<rparr>)"
  using assms by (simp add: save_uploaded_file_def Let_def)

lemma save_fails:
  assumes "fs_mkdir_fails fs (AUDIO_FILES_PATH cfg)
   \<or> fs_open_fails fs (os_path_join (AUDIO_FILES_PATH cfg) name)
   \<or> fs_write_fails fs (os_path_join (AUDIO_FILES_PATH cfg) name)"
  shows "fst (save_uploaded_file cfg fs upload name) = Inl OSError"
  using assms by (auto simp add: save_uploaded_file_def Let_def)

lemma get_file_size_default: "os_path_getsize fs p = Inl e \<Longrightarrow> get_file_size fs p = 0"
  by (simp add: get_file_size_def)

lemma get_file_size_readable: "os_path_getsize fs p = Inr n \<Longrightarrow> get_file_size fs p = n"
  by (simp add: get_file_size_def)

section \<open>Creating, uploading, updating and deleting records\<close>

lemma py_lower_normalize: "py_lower (normalize_language_code x) = normalize_language_code x"
proof -
  have "py_lower (py_strip (py_lower x)) = py_strip (py_lower x)"
    by (simp add: py_lower_strip py_lower_idem)
  moreover have "py_lower ''en'' = ''en''" "py_lower ''ar'' = ''ar''"
    by (simp_all add: py_eval)
  ultimately show ?thesis
    by (simp add: normalize_language_code_cases Let_def)
qed

lemma normalize_allowed:
  "normalize_language_code x \<in> set allowed_languages
     \<Longrightarrow> normalize_language_code x = ''en'' \<or> normalize_language_code x = ''ar''"
  by (auto simp: normalize_language_code_cases Let_def allowed_languages_def split: if_splits)

lemma normalize_english: "normalize_language_code ''english'' = ''en''"
  by (simp add: normalize_language_code_cases py_eval)

lemma py_lower_file_extension: "py_lower (file_extension_of name) = file_extension_of name"
  by (simp add: file_extension_of_def py_lower_idem)

lemma AudioFileCreate_Inr:
  "AudioFileCreate lang name url fsize dur fmt = Inr data \<Longrightarrow>
     data = \<lparr>afc_language = py_lower lang, afc_filename = name, afc_url = url,
              afc_file_size = fsize, afc_duration = dur, afc_format = py_lower fmt\<rparr>
     \<and> py_lower lang \<in> set allowed_languages \<and> py_lower fmt \<in> set allowed_formats"
  by (auto simp: AudioFileCreate_def validate_language_def validate_format_def
      split: if_splits sum.splits)

lemma AudioFileCreate_ok:
  "py_lower lang \<in> set allowed_languages \<Longrightarrow> py_lower fmt \<in> set allowed_formats \<Longrightarrow>
   AudioFileCreate lang name url fsize dur fmt =
     Inr \<lparr>afc_language = py_lower lang, afc_filename = name, afc_url = url,
              afc_file_size = fsize, afc_duration = dur, afc_format = py_lower fmt\<rparr>"
  by (simp add: AudioFileCreate_def validate_language_def validate_format_def)

lemma AudioFile_valid:
  "doc_language d \<in> set allowed_languages \<Longrightarrow> py_lower (doc_language d) = doc_language d \<Longrightarrow>
   doc_format d \<in> set allowed_formats \<Longrightarrow> py_lower (doc_format d) = doc_format d \<Longrightarrow>
   AudioFile d = Inr d"
  by (simp add: AudioFile_def validate_language_def validate_format_def)

lemma find_append:
  "List.find P (xs @ ys) = (case List.find P xs of None \<Rightarrow> List.find P ys | Some x \<Rightarrow> Some x)"
  by (induction xs) simp_all

lemma find_fresh: "k \<notin> set (map doc_id coll) \<Longrightarrow> List.find (\<lambda>d. doc_id d = k) coll = None"
  by (induction coll) auto

lemma created_doc_sel [simp]:
  "doc_id (created_doc i n d) = i" "doc_language (created_doc i n d) = afc_language d"
  "doc_format (created_doc i n d) = afc_format d"
  "doc_file_size (created_doc i n d) = afc_file_size d"
  "doc_filename (created_doc i n d) = afc_filename d"
  by (simp_all add: created_doc_def)

lemma create_coll:
  "snd (audio_service_create_audio_file coll new_id now data) = coll
   \<or> snd (audio_service_create_audio_file coll new_id now data) = coll @ [created_doc new_id now data]"
  by (auto simp: audio_service_create_audio_file_def insert_one_def Let_def created_doc_def
      split: option.splits)

lemma create_ok:
  assumes "new_id \<notin> set (map doc_id coll)"
    and "AudioFile (created_doc new_id now data) = Inr (created_doc new_id now data)"
  shows "audio_service_create_audio_file coll new_id now data
     = (Inr (created_doc new_id now data), coll @ [created_doc new_id now data])"
proof -
  have f: "find_one (\<lambda>d. doc_id d = new_id) (coll @ [created_doc new_id now data])
      = Some (created_doc new_id now data)"
    using assms(1) by (simp add: find_one_def find_append find_fresh)
  have i: "insert_one (created_doc new_id now data) coll = Inr (coll @ [created_doc new_id now data])"
    using assms(1) by (simp add: insert_one_def)
  show ?thesis
    unfolding audio_service_create_audio_file_def Let_def created_doc_def [symmetric]
    by (simp add: i f assms(2))
qed

lemma upload_coll:
  "st_coll (snd (upload_audio_file cfg st file language token new_id now)) = st_coll st
   \<or> (\<exists>d. st_coll (snd (upload_audio_file cfg st file language token new_id now)) = st_coll st @ [d]
          \<and> (doc_language d = ''en'' \<or> doc_language d = ''ar''))"
proof -
  let ?lang = "normalize_language_code language"
  let ?up = "upload_audio_file cfg st file language token new_id now"
  obtain ok msg where v: "validate_audio_file cfg file = (ok, msg)" by (cases "validate_audio_file cfg file")
  show ?thesis
  proof (cases "ok")
    case False
    then show ?thesis using v by (simp add: upload_audio_file_def)
  next
    case True
    show ?thesis
    proof (cases "uf_filename file")
      case None
      then show ?thesis using v True by (simp add: upload_audio_file_def)
    next
      case (Some name)
      let ?uniq = "?lang @ ''_'' @ token @ ''.'' @ file_extension_of name"
      obtain r fs' where sv: "save_uploaded_file cfg (st_fs st) file ?uniq = (r, fs')"
        by (cases "save_uploaded_file cfg (st_fs st) file ?uniq")
      show ?thesis
      proof (cases r)
        case (Inl e)
        then show ?thesis using v True Some sv by (simp add: upload_audio_file_def Let_def)
      next
        case (Inr file_path)
        let ?afc = "AudioFileCreate ?lang ?uniq (generate_file_url cfg ?uniq)
                      (get_file_size fs' file_path) None (file_extension_of name)"
        show ?thesis
        proof (cases ?afc)
          case (Inl e)
          then show ?thesis using v True Some sv Inr by (simp add: upload_audio_file_def Let_def)
        next
          case afc: (Inr data)
          obtain res coll' where cr:
            "audio_service_create_audio_file (st_coll st) new_id now data = (res, coll')"
            by (cases "audio_service_create_audio_file (st_coll st) new_id now data")
          have up: "st_coll (snd ?up) = coll'"
            using v True Some sv Inr afc cr
            by (cases res) (simp_all add: upload_audio_file_def Let_def)
          have l: "doc_language (created_doc new_id now data) = ''en''
                 \<or> doc_language (created_doc new_id now data) = ''ar''"
            using AudioFileCreate_Inr [OF afc] normalize_allowed [of language]
            by (auto simp: py_lower_normalize)
          have "coll' = st_coll st \<or> coll' = st_coll st @ [created_doc new_id now data]"
            using create_coll [of "st_coll st" new_id now data] cr by simp
          then show ?thesis using up l by auto
        qed
      qed
    qed
  qed
qed


lemma upload_success:
  assumes v: "validate_audio_file cfg file = (True, None)"
    and nm: "uf_filename file = Some name"
    and uq: "unique_filename = normalize_language_code language @ ''_'' @ token @ ''.'' @ file_extension_of name"
    and pth: "file_path = os_path_join (AUDIO_FILES_PATH cfg) unique_filename"
    and io: "\<not> fs_mkdir_fails (st_fs st) (AUDIO_FILES_PATH cfg)" "\<not> fs_open_fails (st_fs st) file_path"
            "\<not> fs_write_fails (st_fs st) file_path" "\<not> fs_stat_fails (st_fs st) file_path"
    and lang: "normalize_language_code language \<in> set allowed_languages"
    and fmt: "file_extension_of name \<in> set allowed_formats"
    and fresh: "new_id \<notin> set (map doc_id (st_coll st))"
    and rec: "rec = \<lparr>doc_id = new_id, doc_language = normalize_language_code language,
                doc_filename = unique_filename, doc_url = generate_file_url cfg unique_filename,
                doc_file_size = int (length (uf_content file)), doc_duration = None,
                doc_format = file_extension_of name, doc_created_at = now, doc_updated_at = now\<rparr>"
  shows "upload_audio_file cfg st file language token new_id now
     = (OK rec,
        \<lparr>st_fs = (st_fs st)\<lparr>fs_files := (fs_files (st_fs st))(file_path \<mapsto> uf_content file)\<rparr>,
         st_coll = st_coll st @ [rec]\<rparr>)"
proof -
  let ?fs' = "(st_fs st)\<lparr>fs_files := (fs_files (st_fs st))(file_path \<mapsto> uf_content file)\<rparr>"
  let ?data = "\<lparr>afc_language = normalize_language_code language, afc_filename = unique_filename,
      afc_url = generate_file_url cfg unique_filename,
      afc_file_size = int (length (uf_content file)), afc_duration = None,
      afc_format = file_extension_of name\<rparr>"
  have sv: "save_uploaded_file cfg (st_fs st) file unique_filename = (Inr file_path, ?fs')"
    using save_ok [of "st_fs st" cfg unique_filename "file"] io pth by simp
  have sz: "get_file_size ?fs' file_path = int (length (uf_content file))"
    using io(4) by (simp add: get_file_size_def os_path_getsize_def)
  have afc: "AudioFileCreate (normalize_language_code language) unique_filename
       (generate_file_url cfg unique_filename) (int (length (uf_content file))) None
       (file_extension_of name) = Inr ?data"
    using AudioFileCreate_ok [of "normalize_language_code language" "file_extension_of name"]
      lang fmt by (simp add: py_lower_normalize py_lower_file_extension)
  have cd: "created_doc new_id now ?data = rec"
    by (simp add: created_doc_def rec)
  have "AudioFile rec = Inr rec"
    by (rule AudioFile_valid) (simp_all add: rec lang fmt py_lower_normalize py_lower_file_extension)
  then have cr: "audio_service_create_audio_file (st_coll st) new_id now ?data
      = (Inr rec, st_coll st @ [rec])"
    using create_ok [of new_id "st_coll st" now ?data] fresh cd by simp
  show ?thesis
    using sv sz afc cr unfolding upload_audio_file_def v uq
    by (simp add: nm Let_def)
qed

lemma upload_language_rejected:
  assumes v: "validate_audio_file cfg file = (True, None)"
    and nm: "uf_filename file = Some name"
    and uq: "unique_filename = normalize_language_code language @ ''_'' @ token @ ''.'' @ file_extension_of name"
    and pth: "file_path = os_path_join (AUDIO_FILES_PATH cfg) unique_filename"
    and io: "\<not> fs_mkdir_fails (st_fs st) (AUDIO_FILES_PATH cfg)" "\<not> fs_open_fails (st_fs st) file_path"
            "\<not> fs_write_fails (st_fs st) file_path"
    and lang: "normalize_language_code language \<notin> set allowed_languages"
  shows "upload_audio_file cfg st file language token new_id now
     = (HTTPException 500 ''Failed to upload audio file'',
        st\<lparr>st_fs := (st_fs st)\<lparr>fs_files := (fs_files (st_fs st))(file_path \<mapsto> uf_content file)\<rparr>\<rparr>)"
proof -
  let ?fs' = "(st_fs st)\<lparr>fs_files := (fs_files (st_fs st))(file_path \<mapsto> uf_content file)\<rparr>"
  have sv: "save_uploaded_file cfg (st_fs st) file unique_filename = (Inr file_path, ?fs')"
    using save_ok [of "st_fs st" cfg unique_filename "file"] io pth by simp
  have afc: "AudioFileCreate (normalize_language_code language) a b c d e = Inl ValidationError"
    for a b c d e
    using lang by (simp add: AudioFileCreate_def validate_language_def py_lower_normalize)
  show ?thesis
    using sv unfolding upload_audio_file_def v uq
    by (simp add: nm Let_def afc)
qed

lemma get_by_language_en:
  assumes "\<forall>d\<in>set (st_coll st). AudioFile d = Inr d"
    and "\<exists>d\<in>set (st_coll st). doc_language d = ''en''"
  shows "\<exists>r. get_audio_by_language st ''en'' = OK r \<and> r \<in> set (st_coll st)
            \<and> doc_language r = ''en''
            \<and> List.find (\<lambda>d. doc_language d = ''en'') (st_coll st) = Some r"
proof -
  obtain r where f: "List.find (\<lambda>d. doc_language d = ''en'') (st_coll st) = Some r"
    using assms(2) by (cases "List.find (\<lambda>d. doc_language d = ''en'') (st_coll st)")
      (auto simp: find_None_iff)
  then have r: "r \<in> set (st_coll st)" "doc_language r = ''en''"
    by (auto simp: find_Some_iff)
  then have "AudioFile r = Inr r" using assms(1) by simp
  moreover have "py_lower ''en'' = ''en''" by (simp add: py_eval)
  ultimately have "get_audio_by_language st ''en'' = OK r"
    using f
    by (simp add: get_audio_by_language_def normalize_language_code_codes
        audio_service_get_audio_by_language_def find_one_def Let_def)
  then show ?thesis using r f by simp
qed

lemma update_one_language:
  "(\<And>d. doc_language (f d) = doc_language d) \<Longrightarrow>
     map doc_language (fst (update_one q f coll)) = map doc_language coll"
  by (induction coll) (auto split: prod.splits)

lemma update_no_language:
  assumes "upd_language u = None"
  shows "map doc_language (snd (audio_service_update_audio_file coll audio_id u now))
           = map doc_language coll"
proof (cases "ObjectId audio_id")
  case (Inl e)
  then show ?thesis by (simp add: audio_service_update_audio_file_def)
next
  case (Inr oid)
  have k: "\<And>d. doc_language (apply_update u now d) = doc_language d"
    using assms by (simp add: apply_update_def)
  obtain coll' n where uo: "update_one (\<lambda>d. doc_id d = oid) (apply_update u now) coll = (coll', n)"
    by (cases "update_one (\<lambda>d. doc_id d = oid) (apply_update u now) coll")
  have "map doc_language coll' = map doc_language coll"
    using update_one_language [of "apply_update u now" "\<lambda>d. doc_id d = oid" coll, OF k] uo by simp
  moreover have "snd (audio_service_update_audio_file coll audio_id u now) = coll'"
    using Inr uo by (simp add: audio_service_update_audio_file_def split: option.splits)
  ultimately show ?thesis by simp
qed

lemma delete_one_subset: "set (fst (delete_one q coll)) \<subseteq> set coll"
  by (induction coll) (auto split: prod.splits)

lemma delete_subset:
  assumes "audio_service_delete_audio_file coll audio_id = Inr (deleted, coll')"
  shows "set coll' \<subseteq> set coll"
proof (cases "ObjectId audio_id")
  case (Inl e)
  then show ?thesis using assms by (simp add: audio_service_delete_audio_file_def)
next
  case (Inr oid)
  then have "coll' = fst (delete_one (\<lambda>d. doc_id d = oid) coll)"
    using assms by (simp add: audio_service_delete_audio_file_def split: prod.splits)
  then show ?thesis using delete_one_subset by simp
qed

section \<open>Listing the languages\<close>

lemma ar_less_en: "(''ar'' :: string) < ''en''" "\<not> (''en'' :: string) \<le> ''ar''"
  by (simp_all add: less_char_def less_eq_char_def)

lemma sort_en_ar: "sort (remdups [''en'', ''ar'']) = [''ar'', ''en'']"
  by (simp add: ar_less_en)

lemma insort_key_fst_map:
  "insort_key fst (k, f k) (map (\<lambda>k. (k, f k)) ks) = map (\<lambda>k. (k, f k)) (insort k ks)"
  by (induction ks) simp_all

lemma sort_key_fst_map:
  "sort_key fst (map (\<lambda>k. (k, f k)) ks) = map (\<lambda>k. (k, f k)) (sort ks)"
  by (induction ks) (simp_all add: insort_key_fst_map)

lemma language_name_lookup:
  "dict_get language_names k (py_title k)
     = (if k = ''en'' then code_points ''English''
        else if k = ''ar'' then code_points ''Arabic'' else py_title k)"
  by (simp add: dict_get_def language_names_def)

lemma get_available_languages_eq:
  "audio_service_get_available_languages coll =
     map (\<lambda>k. \<lparr>lr_language = k,
               lr_language_name = (if k = ''en'' then code_points ''English''
                                   else if k = ''ar'' then code_points ''Arabic''
                                   else py_title k),
               lr_count = length (filter (\<lambda>d. doc_language d = k) coll)\<rparr>)
       (sorted_list_of_set (set (map doc_language coll)))"
proof -
  have "sort_by_id (group_count coll)
      = map (\<lambda>k. (k, length (filter (\<lambda>d. doc_language d = k) coll)))
          (sort (remdups (map doc_language coll)))"
    unfolding sort_by_id_def group_count_def by (rule sort_key_fst_map)
  then show ?thesis
    unfolding audio_service_get_available_languages_def sorted_list_of_set_sort_remdups
    by (simp add: language_name_lookup comp_def)
qed

lemma languages_en_ar:
  assumes "set (map doc_language coll) = {''en'', ''ar''}"
  shows "sorted_list_of_set (set (map doc_language coll)) = [''ar'', ''en'']"
proof -
  have "set (map doc_language coll) = set [''en'', ''ar'']" using assms by simp
  then have "sorted_list_of_set (set (map doc_language coll)) = sort (remdups [''en'', ''ar''])"
    by (simp only: sorted_list_of_set_sort_remdups)
  then show ?thesis by (simp only: sort_en_ar)
qed

lemma py_title_examples:
  "py_title ''fr'' = code_points ''Fr''"
  "py_title ''en-us'' = code_points ''En-Us''"
  "py_title [CHR 0xE9, CHR ''t'', CHR 0xE9] = [201, 116, 233]"
  "py_title [CHR 0xFF, CHR 0xDF] = [376, 223]"
  by (simp_all add: py_title_def title_char_def is_cased_def code_points_def py_eval)

lemma filter_nonempty_ex: "filter P xs \<noteq> [] \<Longrightarrow> \<exists>x\<in>set xs. P x"
  by (induction xs) (auto split: if_splits)

lemma get_available_languages_three_two:
  assumes "length (filter (\<lambda>d. doc_language d = ''en'') coll) = 3"
    and "length (filter (\<lambda>d. doc_language d = ''ar'') coll) = 2"
    and "\<forall>d\<in>set coll. doc_language d = ''en'' \<or> doc_language d = ''ar''"
  shows "audio_service_get_available_languages coll =
     [\<lparr>lr_language = ''ar'', lr_language_name = code_points ''Arabic'', lr_count = 2\<rparr>,
      \<lparr>lr_language = ''en'', lr_language_name = code_points ''English'', lr_count = 3\<rparr>]"
proof -
  have "filter (\<lambda>d. doc_language d = ''en'') coll \<noteq> []" using assms(1) by auto
  then have e: "''en'' \<in> doc_language ` set coll"
    using filter_nonempty_ex [of "\<lambda>d. doc_language d = ''en''" coll] by force
  have "filter (\<lambda>d. doc_language d = ''ar'') coll \<noteq> []" using assms(2) by auto
  then have a: "''ar'' \<in> doc_language ` set coll"
    using filter_nonempty_ex [of "\<lambda>d. doc_language d = ''ar''" coll] by force
  have "doc_language ` set coll \<subseteq> {''en'', ''ar''}" using assms(3) by blast
  then have "set (map doc_language coll) = {''en'', ''ar''}"
    using e a by auto
  then have l: "sorted_list_of_set (set (map doc_language coll)) = [''ar'', ''en'']"
    by (rule languages_en_ar)
  show ?thesis
    unfolding get_available_languages_eq l using assms(1,2) by simp
qed

lemma three_en_two_ar_counts:
  "length (filter (\<lambda>d. doc_language d = ''en'') three_en_two_ar) = 3"
  "length (filter (\<lambda>d. doc_language d = ''ar'') three_en_two_ar) = 2"
  "\<forall>d\<in>set three_en_two_ar. doc_language d = ''en'' \<or> doc_language d = ''ar''"
  by (simp_all add: three_en_two_ar_def example_doc_def)

text \<open>
  Claim C1, as the specification states it, fails in two places.  For three \<^verbatim>\<open>en\<close> and
  two \<^verbatim>\<open>ar\<close> records the sequence \<open>[en, ar]\<close> is not what \<open>get_available_languages\<close>
  returns, since the result is sorted ascending by code and \<^verbatim>\<open>ar\<close> is below \<^verbatim>\<open>en\<close>.  And
  the display name of a language outside the table is not the capitalized code: for
  \<^verbatim>\<open>en-us\<close> it is \<^verbatim>\<open>En-Us\<close>, where capitalizing gives \<^verbatim>\<open>En-us\<close>, because \<^verbatim>\<open>str.title\<close> starts
  a new word after every character that is not a letter.
\<close>

theorem get_available_languages_en_first_counterexample:
  "audio_service_get_available_languages three_en_two_ar \<noteq>
     [\<lparr>lr_language = ''en'', lr_language_name = code_points ''English'', lr_count = 3\<rparr>,
      \<lparr>lr_language = ''ar'', lr_language_name = code_points ''Arabic'', lr_count = 2\<rparr>]
   \<and> audio_service_get_available_languages [example_doc ''65f0a1b2c3d4e5f601020307'' ''en-us'']
       = [\<lparr>lr_language = ''en-us'', lr_language_name = code_points ''En-Us'', lr_count = 1\<rparr>]
   \<and> code_points ''En-Us'' \<noteq> code_points ''En-us''"
proof -
  have order: "audio_service_get_available_languages three_en_two_ar \<noteq>
     [\<lparr>lr_language = ''en'', lr_language_name = code_points ''English'', lr_count = 3\<rparr>,
      \<lparr>lr_language = ''ar'', lr_language_name = code_points ''Arabic'', lr_count = 2\<rparr>]"
    using get_available_languages_three_two [OF three_en_two_ar_counts] by simp
  have name: "audio_service_get_available_languages
        [example_doc ''65f0a1b2c3d4e5f601020307'' ''en-us'']
       = [\<lparr>lr_language = ''en-us'', lr_language_name = code_points ''En-Us'', lr_count = 1\<rparr>]"
    unfolding get_available_languages_eq
    by (simp add: example_doc_def py_title_def title_char_def is_cased_def code_points_def py_eval)
  have differ: "code_points ''En-Us'' \<noteq> code_points ''En-us''"
    by (simp add: code_points_def)
  show ?thesis using order name differ by (intro conjI)
qed

text \<open>
  Claim C1, amended.  For a store that holds exactly three records with language \<^verbatim>\<open>en\<close>
  and two with language \<^verbatim>\<open>ar\<close>, and no others, \<open>get_available_languages\<close> returns exactly
  \<open>[{ar, Arabic, 2}, {en, English, 3}]\<close>.  For every store the codes of the result are
  sorted ascending and distinct, the count of an entry is the number of records with its
  language, and its display name is \<^verbatim>\<open>English\<close> for \<^verbatim>\<open>en\<close>, \<^verbatim>\<open>Arabic\<close> for \<^verbatim>\<open>ar\<close>, and for any
  other language what \<^verbatim>\<open>str.title\<close> makes of the code: every letter that does not follow a
  letter in title case, every other letter in lower case, so that \<^verbatim>\<open>en-us\<close> gives \<^verbatim>\<open>En-Us\<close>
  and the three letters of code points 233, 116, 233 give 201, 116, 233.
\<close>

theorem get_available_languages_sorted_counts:
  assumes "length (filter (\<lambda>d. doc_language d = ''en'') coll) = 3"
    and "length (filter (\<lambda>d. doc_language d = ''ar'') coll) = 2"
    and "\<forall>d\<in>set coll. doc_language d = ''en'' \<or> doc_language d = ''ar''"
  shows "audio_service_get_available_languages coll =
           [\<lparr>lr_language = ''ar'', lr_language_name = code_points ''Arabic'', lr_count = 2\<rparr>,
            \<lparr>lr_language = ''en'', lr_language_name = code_points ''English'', lr_count = 3\<rparr>]
       \<and> sorted (map lr_language (audio_service_get_available_languages store))
       \<and> distinct (map lr_language (audio_service_get_available_languages store))
       \<and> set (map lr_language (audio_service_get_available_languages store))
           = set (map doc_language store)
       \<and> (\<forall>e\<in>set (audio_service_get_available_languages store).
            lr_count e = length (filter (\<lambda>d. doc_language d = lr_language e) store)
            \<and> lr_language_name e =
                (if lr_language e = ''en'' then code_points ''English''
                 else if lr_language e = ''ar'' then code_points ''Arabic''
                 else py_title (lr_language e)))
       \<and> py_title ''en-us'' = code_points ''En-Us''
       \<and> py_title [CHR 0xE9, CHR ''t'', CHR 0xE9] = [201, 116, 233]"
proof -
  have codes: "map lr_language (audio_service_get_available_languages store)
      = sorted_list_of_set (set (map doc_language store))"
    unfolding get_available_languages_eq by (simp add: comp_def)
  have entries: "\<forall>e\<in>set (audio_service_get_available_languages store).
            lr_count e = length (filter (\<lambda>d. doc_language d = lr_language e) store)
            \<and> lr_language_name e =
                (if lr_language e = ''en'' then code_points ''English''
                 else if lr_language e = ''ar'' then code_points ''Arabic''
                 else py_title (lr_language e))"
    unfolding get_available_languages_eq by auto
  have shape: "sorted (map lr_language (audio_service_get_available_languages store))"
    "distinct (map lr_language (audio_service_get_available_languages store))"
    "set (map lr_language (audio_service_get_available_languages store))
           = set (map doc_language store)"
    unfolding codes by simp_all
  show ?thesis
    using get_available_languages_three_two [OF assms] shape entries
      py_title_examples(2) py_title_examples(3)
    by (intro conjI)
qed

theorem get_available_languages_sorted_counts_witness:
  "audio_service_get_available_languages three_en_two_ar =
     [\<lparr>lr_language = ''ar'', lr_language_name = code_points ''Arabic'', lr_count = 2\<rparr>,
      \<lparr>lr_language = ''en'', lr_language_name = code_points ''English'', lr_count = 3\<rparr>]
   \<and> sorted (map lr_language (audio_service_get_available_languages
        [example_doc ''65f0a1b2c3d4e5f601020306'' ''fr'']))
   \<and> py_title ''fr'' = code_points ''Fr''
   \<and> py_title ''en-us'' = code_points ''En-Us''
   \<and> map lr_language_name (audio_service_get_available_languages
        [example_doc ''65f0a1b2c3d4e5f601020306'' ''fr'']) = [py_title ''fr'']
   \<and> map lr_count (audio_service_get_available_languages
        [example_doc ''65f0a1b2c3d4e5f601020306'' ''fr'']) = [1]"
proof -
  let ?store = "[example_doc ''65f0a1b2c3d4e5f601020306'' ''fr'']"
  let ?e = "\<lparr>lr_language = ''fr'', lr_language_name = code_points ''Fr'', lr_count = 1\<rparr>"
  note t = get_available_languages_sorted_counts [OF three_en_two_ar_counts, of ?store]
  have ev: "audio_service_get_available_languages ?store = [?e]"
    unfolding get_available_languages_eq
    by (simp add: example_doc_def py_title_def title_char_def is_cased_def code_points_def py_eval)
  have mem: "?e \<in> set (audio_service_get_available_languages ?store)"
    unfolding ev by simp
  have entry: "lr_count ?e = length (filter (\<lambda>d. doc_language d = lr_language ?e) ?store)
      \<and> lr_language_name ?e =
          (if lr_language ?e = ''en'' then code_points ''English''
           else if lr_language ?e = ''ar'' then code_points ''Arabic''
           else py_title (lr_language ?e))"
    using t [THEN conjunct2, THEN conjunct2, THEN conjunct2, THEN conjunct2, THEN conjunct1,
        rule_format, OF mem] .
  have name: "lr_language_name ?e = py_title ''fr''"
    using entry [THEN conjunct2] by simp
  have count: "lr_count ?e = 1"
    using entry [THEN conjunct1] by (simp add: example_doc_def)
  have names: "map lr_language_name (audio_service_get_available_languages ?store)
      = [py_title ''fr'']"
    unfolding ev using name by simp
  have counts: "map lr_count (audio_service_get_available_languages ?store) = [1]"
    unfolding ev using count by simp
  show ?thesis
    using t [THEN conjunct1] t [THEN conjunct2, THEN conjunct1] py_title_examples(1)
      t [THEN conjunct2, THEN conjunct2, THEN conjunct2, THEN conjunct2, THEN conjunct2,
         THEN conjunct1] names counts
    by (intro conjI)
qed

section \<open>Deleting a record whose file cannot be removed\<close>

text \<open>
  Claim C2, as the specification states it, fails.  In \<open>stuck_file_state\<close> the record is
  deleted from the store, the file exists and its removal raises; the exception reaches
  the last \<^verbatim>\<open>except\<close> clause of the handler, and the response is 500, not success.
\<close>

theorem delete_audio_file_remove_fails_counterexample:
  "audio_service_delete_audio_file (st_coll stuck_file_state) example_id = Inr (True, [])
   \<and> delete_audio_file default_settings stuck_file_state example_id
      = (HTTPException 500 ''Failed to delete audio file'', stuck_file_state\<lparr>st_coll := []\<rparr>)"
proof -
  have c: "st_coll stuck_file_state = [example_doc example_id ''en'']"
    by (simp add: stuck_file_state_def)
  have "delete_audio_file default_settings stuck_file_state example_id
      = (HTTPException 500 ''Failed to delete audio file'', stuck_file_state\<lparr>st_coll := []\<rparr>)"
    unfolding delete_after_store_delete
      [of stuck_file_state example_id "example_doc example_id ''en''" "[]" example_path
        default_settings, unfolded c, OF get_example del_example path_example [symmetric]]
    by (simp add: stuck_file_state_def os_path_exists_def example_fs_def)
  then show ?thesis using del_example c by simp
qed

text \<open>
  Claim C2, amended.  For every delete-by-id request whose record is found and whose
  store deletion succeeds: when the file of the record does not exist the handler reports
  success and only the store changes; when the file exists and is removed the handler
  reports success; when the file exists and its removal fails the handler answers 500
  \<^verbatim>\<open>Failed to delete audio file\<close> (the error is logged by the \<^verbatim>\<open>except\<close> clause), and the
  record stays deleted from the store.
\<close>

theorem delete_audio_file_after_store_deletion:
  assumes "audio_service_get_audio_by_id (st_coll st) audio_id = Inr (Some audio_file)"
    and "audio_service_delete_audio_file (st_coll st) audio_id = Inr (True, coll')"
    and "file_path = os_path_join (AUDIO_FILES_PATH cfg) (doc_filename audio_file)"
  shows "(\<not> os_path_exists (st_fs st) file_path \<longrightarrow>
            delete_audio_file cfg st audio_id
              = (OK ''Audio file deleted successfully'', st\<lparr>st_coll := coll'\<rparr>))
       \<and> (os_path_exists (st_fs st) file_path \<and> \<not> fs_remove_fails (st_fs st) file_path \<longrightarrow>
            delete_audio_file cfg st audio_id
              = (OK ''Audio file deleted successfully'',
                 st\<lparr>st_coll := coll',
                    st_fs := (st_fs st)\<lparr>fs_files := (fs_files (st_fs st))(file_path := None)\<rparr>\<rparr>))
       \<and> (os_path_exists (st_fs st) file_path \<and> fs_remove_fails (st_fs st) file_path \<longrightarrow>
            delete_audio_file cfg st audio_id
              = (HTTPException 500 ''Failed to delete audio file'', st\<lparr>st_coll := coll'\<rparr>))"
  unfolding delete_after_store_delete [OF assms] by simp

theorem delete_audio_file_after_store_deletion_witness:
  "delete_audio_file default_settings stuck_file_state example_id
      = (HTTPException 500 ''Failed to delete audio file'', stuck_file_state\<lparr>st_coll := []\<rparr>)
   \<and> delete_audio_file default_settings
        \<lparr>st_fs = example_fs Map.empty (\<lambda>p. True), st_coll = [example_doc example_id ''en'']\<rparr>
        example_id
      = (OK ''Audio file deleted successfully'',
         \<lparr>st_fs = example_fs Map.empty (\<lambda>p. True), st_coll = []\<rparr>)"
proof -
  let ?gone = "\<lparr>st_fs = example_fs Map.empty (\<lambda>p. True),
                st_coll = [example_doc example_id ''en'']\<rparr>"
  have c: "st_coll stuck_file_state = [example_doc example_id ''en'']"
    "st_coll ?gone = [example_doc example_id ''en'']"
    by (simp_all add: stuck_file_state_def)
  have e: "os_path_exists (st_fs stuck_file_state) example_path"
    "fs_remove_fails (st_fs stuck_file_state) example_path"
    "\<not> os_path_exists (st_fs ?gone) example_path"
    by (simp_all add: stuck_file_state_def os_path_exists_def example_fs_def)
  have "delete_audio_file default_settings stuck_file_state example_id
      = (HTTPException 500 ''Failed to delete audio file'', stuck_file_state\<lparr>st_coll := []\<rparr>)"
    using delete_audio_file_after_store_deletion
      [of stuck_file_state example_id "example_doc example_id ''en''" "[]" example_path
        default_settings, unfolded c, OF get_example del_example path_example [symmetric]] e
    by simp
  moreover have "delete_audio_file default_settings ?gone example_id
      = (OK ''Audio file deleted successfully'', ?gone\<lparr>st_coll := []\<rparr>)"
    using delete_audio_file_after_store_deletion
      [of ?gone example_id "example_doc example_id ''en''" "[]" example_path
        default_settings, unfolded c, OF get_example del_example path_example [symmetric]] e
    by simp
  ultimately show ?thesis by simp
qed

section \<open>Malformed identifiers\<close>




section \<open>The file persister\<close>

text \<open>
  Claim C4, as the specification states it, fails.  \<open>get_file_size\<close> returns the default
  0 for a file whose size cannot be read, and \<open>save_uploaded_file\<close> writes under a name
  that contains path separators: nothing in it examines the name.  The upload handler
  builds such a name from a language like \<^verbatim>\<open>../../tmp/x\<close>, and the file is on disk, outside
  the storage root, when the handler answers 500.
\<close>

theorem persister_defaults_counterexample:
  "os_path_getsize (st_fs empty_state) ''./audio_files/missing.mp3'' = Inl OSError
   \<and> get_file_size (st_fs empty_state) ''./audio_files/missing.mp3'' = 0
   \<and> fst (save_uploaded_file default_settings (st_fs empty_state) example_upload
            traversal_name) = Inr traversal_path
   \<and> fs_files (st_fs (snd (upload_audio_file default_settings empty_state example_upload
            ''../../tmp/x'' example_token example_id 0))) traversal_path
       = Some ''ID3 12 bytes''"
proof -
  let ?fs' = "(st_fs empty_state)\<lparr>fs_files := (fs_files (st_fs empty_state))
            (traversal_path \<mapsto> uf_content example_upload)\<rparr>"
  have a: "os_path_getsize (st_fs empty_state) ''./audio_files/missing.mp3'' = Inl OSError"
    by (simp add: os_path_getsize_def empty_state_def example_fs_def)
  have j: "os_path_join (AUDIO_FILES_PATH default_settings) traversal_name = traversal_path"
    by (simp add: os_path_join_def default_settings_def traversal_name_def traversal_path_def)
  have ok: "\<not> fs_mkdir_fails (st_fs empty_state) (AUDIO_FILES_PATH default_settings)"
    "\<not> fs_open_fails (st_fs empty_state) traversal_path"
    "\<not> fs_write_fails (st_fs empty_state) traversal_path"
    by (simp_all add: empty_state_def example_fs_def)
  have s: "save_uploaded_file default_settings (st_fs empty_state) example_upload traversal_name
       = (Inr traversal_path, ?fs')"
    using save_ok [of "st_fs empty_state" default_settings traversal_name example_upload] ok
    unfolding j by simp
  have v: "validate_audio_file default_settings example_upload = (True, None)"
    by (simp add: validate_audio_file_def default_settings_def example_upload_def
        file_extension_of_def py_eval)
  have n: "normalize_language_code ''../../tmp/x'' = ''../../tmp/x''"
    by (simp add: normalize_language_code_cases py_eval)
  have e: "file_extension_of ''hello.mp3'' = ''mp3''"
    by (simp add: file_extension_of_def py_eval)
  have u: "traversal_name = normalize_language_code ''../../tmp/x'' @ ''_'' @ example_token
             @ ''.'' @ file_extension_of ''hello.mp3''"
    unfolding n e by (simp add: example_token_def traversal_name_def)
  have f: "uf_filename example_upload = Some ''hello.mp3''"
    by (simp add: example_upload_def)
  have l: "normalize_language_code ''../../tmp/x'' \<notin> set allowed_languages"
    unfolding n by (simp add: allowed_languages_def)
  have "upload_audio_file default_settings empty_state example_upload
            ''../../tmp/x'' example_token example_id 0
      = (HTTPException 500 ''Failed to upload audio file'', empty_state\<lparr>st_fs := ?fs'\<rparr>)"
    by (rule upload_language_rejected [OF v f u j [symmetric] ok l])
  then have "fs_files (st_fs (snd (upload_audio_file default_settings empty_state example_upload
            ''../../tmp/x'' example_token example_id 0))) traversal_path = Some ''ID3 12 bytes''"
    by (simp add: example_upload_def)
  then show ?thesis using a s by (simp add: get_file_size_def)
qed

text \<open>
  Claim C4, amended.  \<open>save_uploaded_file\<close> fails with the error of the operating system,
  logged and raised again, whenever creating the directory, opening the file or writing
  it fails; otherwise it writes the whole content at the storage root joined with the
  given name and returns that path, whatever the name contains (no name is rejected).
  \<open>get_file_size\<close> returns the size of a file that can be read and 0 when the size
  cannot be read, after logging the error.
\<close>

theorem persister_failures:
  "(fs_mkdir_fails fs (AUDIO_FILES_PATH cfg)
      \<or> fs_open_fails fs (os_path_join (AUDIO_FILES_PATH cfg) name)
      \<or> fs_write_fails fs (os_path_join (AUDIO_FILES_PATH cfg) name)
     \<longrightarrow> fst (save_uploaded_file cfg fs upload name) = Inl OSError)
   \<and> (\<not> fs_mkdir_fails fs (AUDIO_FILES_PATH cfg)
      \<and> \<not> fs_open_fails fs (os_path_join (AUDIO_FILES_PATH cfg) name)
      \<and> \<not> fs_write_fails fs (os_path_join (AUDIO_FILES_PATH cfg) name)
     \<longrightarrow> save_uploaded_file cfg fs upload name =
           (Inr (os_path_join (AUDIO_FILES_PATH cfg) name),
            fs\<lparr>fs_files := (fs_files fs)
                 (os_path_join (AUDIO_FILES_PATH cfg) name \<mapsto> uf_content upload)\<rparr>))
   \<and> (os_path_getsize fs' p' = Inr n \<longrightarrow> get_file_size fs' p' = n)
   \<and> (os_path_getsize fs'' p'' = Inl e \<longrightarrow> get_file_size fs'' p'' = 0)"
  using save_fails [of fs cfg name upload] save_ok [of fs cfg name upload]
    get_file_size_readable [of fs' p' n] get_file_size_default [of fs'' p'' e]
  by blast

theorem persister_failures_witness:
  "fst (save_uploaded_file default_settings
          ((st_fs empty_state)\<lparr>fs_write_fails := (\<lambda>p. True)\<rparr>) example_upload ''en_a.mp3'')
     = Inl OSError
   \<and> fst (save_uploaded_file default_settings (st_fs empty_state) example_upload ''en_a.mp3'')
     = Inr ''./audio_files/en_a.mp3''
   \<and> get_file_size (st_fs stuck_file_state) example_path = 12
   \<and> get_file_size (st_fs empty_state) example_path = 0"
proof -
  let ?full = "(st_fs empty_state)\<lparr>fs_write_fails := (\<lambda>p. True)\<rparr>"
  have j: "os_path_join (AUDIO_FILES_PATH default_settings) ''en_a.mp3'' = ''./audio_files/en_a.mp3''"
    by (simp add: os_path_join_def default_settings_def)
  have w: "fs_write_fails ?full (os_path_join (AUDIO_FILES_PATH default_settings) ''en_a.mp3'')"
    by simp
  have ok: "\<not> fs_mkdir_fails (st_fs empty_state) (AUDIO_FILES_PATH default_settings)"
    "\<not> fs_open_fails (st_fs empty_state) (os_path_join (AUDIO_FILES_PATH default_settings) ''en_a.mp3'')"
    "\<not> fs_write_fails (st_fs empty_state) (os_path_join (AUDIO_FILES_PATH default_settings) ''en_a.mp3'')"
    by (simp_all add: empty_state_def example_fs_def)
  have g: "os_path_getsize (st_fs stuck_file_state) example_path = Inr 12"
    "os_path_getsize (st_fs empty_state) example_path = Inl OSError"
    by (simp_all add: os_path_getsize_def stuck_file_state_def empty_state_def example_fs_def)
  have "fst (save_uploaded_file default_settings ?full example_upload ''en_a.mp3'') = Inl OSError"
    using persister_failures
      [of ?full default_settings "''en_a.mp3''" example_upload
        "st_fs stuck_file_state" example_path 12 "st_fs empty_state" example_path OSError] w
    by blast
  moreover have "fst (save_uploaded_file default_settings (st_fs empty_state) example_upload ''en_a.mp3'')
     = Inr ''./audio_files/en_a.mp3''"
    using persister_failures
      [of "st_fs empty_state" default_settings "''en_a.mp3''" example_upload
        "st_fs stuck_file_state" example_path 12 "st_fs empty_state" example_path OSError] ok j
    by simp
  moreover have "get_file_size (st_fs stuck_file_state) example_path = 12"
    "get_file_size (st_fs empty_state) example_path = 0"
    using persister_failures
      [of "st_fs empty_state" default_settings "''en_a.mp3''" example_upload
        "st_fs stuck_file_state" example_path 12 "st_fs empty_state" example_path OSError] g
    by simp_all
  ultimately show ?thesis by simp
qed

section \<open>The admission guard: rate accounting and the block set\<close>








lemma length_filter_mono:
  "(\<And>x. x \<in> set xs \<Longrightarrow> P x \<Longrightarrow> Q x) \<Longrightarrow> length (filter P xs) \<le> length (filter Q xs)"
  by (induction xs) auto


















section \<open>The upload round trip\<close>

text \<open>
  Claim C6.  Take an upload that the validator accepts, whose file name has the extension
  \<^verbatim>\<open>mp3\<close> and whose content is 12 bytes long, the language input \<^verbatim>\<open>english\<close>, a token of 32
  hex digits as \<^verbatim>\<open>uuid.uuid4().hex\<close> yields it, an identifier that the store does not hold
  yet, a file system on which creating the directory and opening, writing and reading
  the new file do not fail, and a store whose records pass the model's validators.  Then
  the upload answers with a record whose language is \<^verbatim>\<open>en\<close>, whose format is \<^verbatim>\<open>mp3\<close>, whose
  file size is 12 and whose name is \<^verbatim>\<open>en_\<close>, the token, \<^verbatim>\<open>.mp3\<close>; the record is appended to
  the store and the content is on disk; and a following lookup of \<^verbatim>\<open>en\<close> answers with a
  stored record of language \<^verbatim>\<open>en\<close>: the first one, which is the new record when the store
  held no \<^verbatim>\<open>en\<close> record before.
\<close>

theorem upload_round_trip:
  assumes "validate_audio_file cfg file = (True, None)"
    and "uf_filename file = Some name" and "file_extension_of name = ''mp3''"
    and "length (uf_content file) = 12"
    and "length token = 32" and "list_all is_hex token"
    and "file_path = os_path_join (AUDIO_FILES_PATH cfg) (''en_'' @ token @ ''.mp3'')"
    and "\<not> fs_mkdir_fails (st_fs st) (AUDIO_FILES_PATH cfg)"
    and "\<not> fs_open_fails (st_fs st) file_path" and "\<not> fs_write_fails (st_fs st) file_path"
    and "\<not> fs_stat_fails (st_fs st) file_path"
    and "new_id \<notin> set (map doc_id (st_coll st))"
    and "\<forall>d\<in>set (st_coll st). AudioFile d = Inr d"
    and "upload_audio_file cfg st file ''english'' token new_id now = (resp, st')"
  shows "\<exists>rec. resp = OK rec
           \<and> doc_id rec = new_id \<and> doc_language rec = ''en'' \<and> doc_format rec = ''mp3''
           \<and> doc_file_size rec = 12
           \<and> (\<exists>tok. doc_filename rec = ''en_'' @ tok @ ''.mp3''
                  \<and> length tok = 32 \<and> list_all is_hex tok)
           \<and> st_coll st' = st_coll st @ [rec]
           \<and> fs_files (st_fs st') file_path = Some (uf_content file)
           \<and> (\<exists>r. get_audio_by_language st' ''en'' = OK r
                  \<and> r \<in> set (st_coll st') \<and> doc_language r = ''en''
                  \<and> ((\<forall>d\<in>set (st_coll st). doc_language d \<noteq> ''en'') \<longrightarrow> r = rec))"
proof -
  define rec where "rec = \<lparr>doc_id = new_id, doc_language = normalize_language_code ''english'',
      doc_filename = ''en_'' @ token @ ''.mp3'',
      doc_url = generate_file_url cfg (''en_'' @ token @ ''.mp3''),
      doc_file_size = int (length (uf_content file)), doc_duration = None,
      doc_format = file_extension_of name, doc_created_at = now, doc_updated_at = now\<rparr>"
  have uq: "''en_'' @ token @ ''.mp3''
      = normalize_language_code ''english'' @ ''_'' @ token @ ''.'' @ file_extension_of name"
    by (simp add: normalize_english assms(3))
  have lang: "normalize_language_code ''english'' \<in> set allowed_languages"
    by (simp add: normalize_english allowed_languages_def)
  have fmt: "file_extension_of name \<in> set allowed_formats"
    by (simp add: assms(3) allowed_formats_def)
  have up: "upload_audio_file cfg st file ''english'' token new_id now
     = (OK rec,
        \<lparr>st_fs = (st_fs st)\<lparr>fs_files := (fs_files (st_fs st))(file_path \<mapsto> uf_content file)\<rparr>,
         st_coll = st_coll st @ [rec]\<rparr>)"
    by (rule upload_success [OF assms(1,2) uq assms(7,8,9,10,11) lang fmt assms(12) rec_def])
  then have resp: "resp = OK rec"
    and st': "st' = \<lparr>st_fs = (st_fs st)\<lparr>fs_files := (fs_files (st_fs st))(file_path \<mapsto> uf_content file)\<rparr>,
         st_coll = st_coll st @ [rec]\<rparr>"
    using assms(14) by simp_all
  have fields: "doc_id rec = new_id" "doc_language rec = ''en''" "doc_format rec = ''mp3''"
    "doc_file_size rec = 12" "doc_filename rec = ''en_'' @ token @ ''.mp3''"
    by (simp_all add: rec_def normalize_english assms(3,4))
  have coll: "st_coll st' = st_coll st @ [rec]"
    and disk: "fs_files (st_fs st') file_path = Some (uf_content file)"
    by (simp_all add: st')
  have "AudioFile rec = Inr rec"
    by (rule AudioFile_valid)
      (simp_all add: rec_def lang fmt py_lower_normalize py_lower_file_extension)
  then have valid: "\<forall>d\<in>set (st_coll st'). AudioFile d = Inr d"
    using assms(13) coll by simp
  have ex: "\<exists>d\<in>set (st_coll st'). doc_language d = ''en''"
    using coll fields(2) by simp
  obtain r where r: "get_audio_by_language st' ''en'' = OK r" "r \<in> set (st_coll st')"
    "doc_language r = ''en''" "List.find (\<lambda>d. doc_language d = ''en'') (st_coll st') = Some r"
    using get_by_language_en [OF valid ex] by blast
  have first: "r = rec" if "\<forall>d\<in>set (st_coll st). doc_language d \<noteq> ''en''"
  proof -
    have "List.find (\<lambda>d. doc_language d = ''en'') (st_coll st) = None"
      using that by (simp add: find_None_iff)
    then show ?thesis using r(4) coll fields(2) by (simp add: find_append)
  qed
  have tok: "\<exists>tok. doc_filename rec = ''en_'' @ tok @ ''.mp3'' \<and> length tok = 32 \<and> list_all is_hex tok"
    using fields(5) assms(5,6) by blast
  show ?thesis
    using resp fields(1-4) tok coll disk r(1-3) first by blast
qed

theorem upload_round_trip_witness:
  "\<exists>rec st'. upload_audio_file default_settings empty_state example_upload ''english''
                 example_token example_id 0 = (OK rec, st')
     \<and> doc_language rec = ''en'' \<and> doc_format rec = ''mp3'' \<and> doc_file_size rec = 12
     \<and> st_coll st' = [rec]
     \<and> get_audio_by_language st' ''en'' = OK rec"
proof -
  let ?up = "upload_audio_file default_settings empty_state example_upload ''english''
                 example_token example_id 0"
  have v: "validate_audio_file default_settings example_upload = (True, None)"
    by (simp add: validate_audio_file_def default_settings_def example_upload_def
        file_extension_of_def py_eval)
  have f: "uf_filename example_upload = Some ''hello.mp3''"
    "length (uf_content example_upload) = 12"
    by (simp_all add: example_upload_def)
  have e: "file_extension_of ''hello.mp3'' = ''mp3''"
    by (simp add: file_extension_of_def py_eval)
  have t: "length example_token = 32" "list_all is_hex example_token"
    by (simp_all add: example_token_def is_hex_def)
  have io: "\<not> fs_mkdir_fails (st_fs empty_state) p" "\<not> fs_open_fails (st_fs empty_state) p"
    "\<not> fs_write_fails (st_fs empty_state) p" "\<not> fs_stat_fails (st_fs empty_state) p" for p
    by (simp_all add: empty_state_def example_fs_def)
  have s: "example_id \<notin> set (map doc_id (st_coll empty_state))"
    "\<forall>d\<in>set (st_coll empty_state). AudioFile d = Inr d"
    "\<forall>d\<in>set (st_coll empty_state). doc_language d \<noteq> ''en''"
    "st_coll empty_state = []"
    by (simp_all add: empty_state_def)
  obtain rec where "fst ?up = OK rec" "doc_language rec = ''en''" "doc_format rec = ''mp3''"
    "doc_file_size rec = 12" "st_coll (snd ?up) = st_coll empty_state @ [rec]"
    "\<exists>r. get_audio_by_language (snd ?up) ''en'' = OK r
        \<and> ((\<forall>d\<in>set (st_coll empty_state). doc_language d \<noteq> ''en'') \<longrightarrow> r = rec)"
    using upload_round_trip [OF v f(1) e f(2) t refl io(1) io(2) io(3) io(4) s(1) s(2)
        prod.collapse [symmetric, of ?up]]
    by blast
  then have "?up = (OK rec, snd ?up) \<and> doc_language rec = ''en'' \<and> doc_format rec = ''mp3''
      \<and> doc_file_size rec = 12 \<and> st_coll (snd ?up) = [rec]
      \<and> get_audio_by_language (snd ?up) ''en'' = OK rec"
    using s(3,4) by (metis append_Nil prod.collapse)
  then show ?thesis by blast
qed

section \<open>The file validator\<close>

lemma validate_audio_file_first_failure:
  "validate_audio_file cfg file = first_failure (validate_checks cfg file)"
  by (simp add: validate_audio_file_def first_failure_def validate_checks_def
      split: option.splits)

text \<open>
  Claim C7.  For every upload, \<open>validate_audio_file\<close> returns the pair for the first
  failing check in the order size limit, file name present, extension allowed, content
  type starting with \<^verbatim>\<open>audio/\<close>, and \<open>(True, None)\<close> when no check fails; it is a total
  function, so it always returns the pair.  In particular: a file whose size check passes
  and whose name has the extension \<^verbatim>\<open>exe\<close> gets the format reason when \<^verbatim>\<open>exe\<close> is not
  allowed; a file whose declared size is above a (non-negative) configured maximum gets
  the size reason; a file whose size check passes and whose name is absent or empty gets
  the no-filename reason.
\<close>

theorem validate_audio_file_order:
  "validate_audio_file cfg file = first_failure (validate_checks cfg file)
   \<and> (\<not> (case uf_size fe of None \<Rightarrow> False | Some k \<Rightarrow> k \<noteq> 0 \<and> k > MAX_FILE_SIZE cfg)
        \<and> uf_filename fe = Some name \<and> name \<noteq> []
        \<and> file_extension_of name = ''exe'' \<and> ''exe'' \<notin> set (ALLOWED_AUDIO_FORMATS cfg)
      \<longrightarrow> validate_audio_file cfg fe = (False, Some (format_message cfg)))
   \<and> (uf_size fs = Some n \<and> n > MAX_FILE_SIZE cfg \<and> 0 \<le> MAX_FILE_SIZE cfg
      \<longrightarrow> validate_audio_file cfg fs = (False, Some (size_message cfg)))
   \<and> (\<not> (case uf_size fn of None \<Rightarrow> False | Some k \<Rightarrow> k \<noteq> 0 \<and> k > MAX_FILE_SIZE cfg)
        \<and> (uf_filename fn = None \<or> uf_filename fn = Some [])
      \<longrightarrow> validate_audio_file cfg fn = (False, Some ''No filename provided''))"
proof -
  have ex: "validate_audio_file cfg fe = (False, Some (format_message cfg))"
    if "\<not> (case uf_size fe of None \<Rightarrow> False | Some k \<Rightarrow> k \<noteq> 0 \<and> k > MAX_FILE_SIZE cfg)"
       "uf_filename fe = Some name" "name \<noteq> []"
       "file_extension_of name = ''exe''" "''exe'' \<notin> set (ALLOWED_AUDIO_FORMATS cfg)"
    using that by (simp add: validate_audio_file_def)
  have sz: "validate_audio_file cfg fs = (False, Some (size_message cfg))"
    if "uf_size fs = Some n" "n > MAX_FILE_SIZE cfg" "0 \<le> MAX_FILE_SIZE cfg"
    using that by (simp add: validate_audio_file_def)
  have nm: "validate_audio_file cfg fn = (False, Some ''No filename provided'')"
    if "\<not> (case uf_size fn of None \<Rightarrow> False | Some k \<Rightarrow> k \<noteq> 0 \<and> k > MAX_FILE_SIZE cfg)"
       "uf_filename fn = None \<or> uf_filename fn = Some []"
    using that by (auto simp: validate_audio_file_def)
  show ?thesis
    using validate_audio_file_first_failure ex sz nm by blast
qed

theorem validate_audio_file_order_witness:
  "validate_audio_file default_settings
     \<lparr>uf_filename = Some ''setup.EXE'', uf_size = None, uf_content_type = Some ''audio/mpeg'',
      uf_content = ''MZ''\<rparr>
     = (False, Some ''File format not allowed. Allowed formats: mp3, wav, m4a'')
   \<and> validate_audio_file default_settings
     \<lparr>uf_filename = None, uf_size = Some 10485761, uf_content_type = None, uf_content = []\<rparr>
     = (False, Some ''File size exceeds maximum allowed size of 10485760 bytes'')
   \<and> validate_audio_file default_settings
     \<lparr>uf_filename = Some [], uf_size = None, uf_content_type = Some ''text/plain'',
      uf_content = []\<rparr>
     = (False, Some ''No filename provided'')"
proof -
  let ?fe = "\<lparr>uf_filename = Some ''setup.EXE'', uf_size = None,
              uf_content_type = Some ''audio/mpeg'', uf_content = ''MZ''\<rparr>"
  let ?fs = "\<lparr>uf_filename = None, uf_size = Some 10485761, uf_content_type = None,
              uf_content = []\<rparr>"
  let ?fn = "\<lparr>uf_filename = Some [], uf_size = None, uf_content_type = Some ''text/plain'',
              uf_content = []\<rparr>"
  have ext: "file_extension_of ''setup.EXE'' = ''exe''"
    by (simp add: file_extension_of_def py_lower_def lower_char_def is_upper_def char_of_eq_iff)
  have fm: "format_message default_settings
      = ''File format not allowed. Allowed formats: mp3, wav, m4a''"
    by (simp add: format_message_def default_settings_def)
  have sn: "str_nat 10485760 = ''10485760''"
    by (simp add: char_of_eq_iff)
  have sm: "size_message default_settings
      = ''File size exceeds maximum allowed size of 10485760 bytes''"
    using sn by (simp add: size_message_def default_settings_def str_int_def)
  have al: "ALLOWED_AUDIO_FORMATS default_settings = [''mp3'', ''wav'', ''m4a'']"
    and mx: "MAX_FILE_SIZE default_settings = 10485760"
    by (simp_all add: default_settings_def)
  note h = validate_audio_file_order
      [of default_settings ?fe ?fe "''setup.EXE''" ?fs 10485761 ?fn, THEN conjunct2]
  have "validate_audio_file default_settings ?fe = (False, Some (format_message default_settings))"
    using h ext al by simp
  moreover have "validate_audio_file default_settings ?fs = (False, Some (size_message default_settings))"
    using h mx by simp
  moreover have "validate_audio_file default_settings ?fn = (False, Some ''No filename provided'')"
    using h by simp
  ultimately show ?thesis
    by (simp only: fm sm)
qed

section \<open>The language of a persisted record\<close>

text \<open>
  Claim C8, as the specification states it, fails.  The validator of the base model
  accepts \<^verbatim>\<open>english\<close> and \<^verbatim>\<open>arabic\<close> besides the two codes, so
  \<^verbatim>\<open>AudioFileCreate(language='English', ...)\<close> is built with the language \<^verbatim>\<open>english\<close> and
  \<open>create_audio_file\<close> persists it; and the update model has no validator, so an update
  that sets the language \<^verbatim>\<open>FR\<close> persists \<^verbatim>\<open>FR\<close>.
\<close>

theorem language_not_canonical_counterexample:
  "AudioFileCreate ''English'' ''sample_english.mp3''
       ''http://localhost:8000/audio_files/sample_english.mp3'' 12 None ''mp3''
     = Inr english_data
   \<and> map doc_language (snd (audio_service_create_audio_file [] example_id 0 english_data))
     = [''english'']
   \<and> map doc_language (snd (audio_service_update_audio_file [example_doc example_id ''en'']
         example_id (language_update ''FR'') 5))
     = [''FR'']"
proof -
  have a: "AudioFileCreate ''English'' ''sample_english.mp3''
       ''http://localhost:8000/audio_files/sample_english.mp3'' 12 None ''mp3''
     = Inr english_data"
    by (simp add: AudioFileCreate_def validate_language_def validate_format_def
        allowed_languages_def allowed_formats_def english_data_def py_eval)
  have "AudioFile (created_doc example_id 0 english_data) = Inr (created_doc example_id 0 english_data)"
    by (rule AudioFile_valid)
      (simp_all add: english_data_def allowed_languages_def allowed_formats_def py_eval)
  then have "audio_service_create_audio_file [] example_id 0 english_data
     = (Inr (created_doc example_id 0 english_data), [] @ [created_doc example_id 0 english_data])"
    by (intro create_ok) simp_all
  then have b: "map doc_language (snd (audio_service_create_audio_file [] example_id 0 english_data))
     = [''english'']"
    by (simp add: english_data_def)
  have "update_one (\<lambda>d. doc_id d = example_id) (apply_update (language_update ''FR'') 5)
          [example_doc example_id ''en'']
      = ([apply_update (language_update ''FR'') 5 (example_doc example_id ''en'')],
         if apply_update (language_update ''FR'') 5 (example_doc example_id ''en'')
              = example_doc example_id ''en'' then 0 else 1)"
    by (simp add: example_doc_def)
  then have "snd (audio_service_update_audio_file [example_doc example_id ''en'']
         example_id (language_update ''FR'') 5)
     = [apply_update (language_update ''FR'') 5 (example_doc example_id ''en'')]"
    by (simp add: audio_service_update_audio_file_def ObjectId_example split: option.splits)
  then have c: "map doc_language (snd (audio_service_update_audio_file [example_doc example_id ''en'']
         example_id (language_update ''FR'') 5)) = [''FR'']"
    by (simp add: apply_update_def language_update_def)
  show ?thesis using a b c by simp
qed

text \<open>
  Claim C8, amended.  The language of every \<open>AudioFileCreate\<close> is the lower-cased input
  and one of \<^verbatim>\<open>en\<close>, \<^verbatim>\<open>ar\<close>, \<^verbatim>\<open>english\<close>, \<^verbatim>\<open>arabic\<close>, and \<open>create_audio_file\<close> adds at most a
  record with that language to the store.  Every record the upload endpoint adds has the
  language \<^verbatim>\<open>en\<close> or \<^verbatim>\<open>ar\<close>.  A partial update that carries no language leaves the language
  of every stored record as it is, and a deletion adds no record.
\<close>

theorem language_of_created_records:
  "(AudioFileCreate lang name url fsize dur fmt = Inr data \<longrightarrow>
      afc_language data = py_lower lang
      \<and> afc_language data \<in> {''en'', ''ar'', ''english'', ''arabic''}
      \<and> py_lower (afc_language data) = afc_language data
      \<and> set (map doc_language (snd (audio_service_create_audio_file coll new_id now data)))
          \<subseteq> set (map doc_language coll) \<union> {afc_language data})
   \<and> set (map doc_language
           (st_coll (snd (upload_audio_file cfg st file language token new_id' now'))))
       \<subseteq> set (map doc_language (st_coll st)) \<union> {''en'', ''ar''}
   \<and> (upd_language u = None \<longrightarrow>
        map doc_language (snd (audio_service_update_audio_file coll' audio_id u now''))
          = map doc_language coll')
   \<and> (audio_service_delete_audio_file coll'' audio_id' = Inr (deleted, coll''') \<longrightarrow>
        set coll''' \<subseteq> set coll'')"
proof -
  have a: "afc_language data = py_lower lang
      \<and> afc_language data \<in> {''en'', ''ar'', ''english'', ''arabic''}
      \<and> py_lower (afc_language data) = afc_language data
      \<and> set (map doc_language (snd (audio_service_create_audio_file coll new_id now data)))
          \<subseteq> set (map doc_language coll) \<union> {afc_language data}"
    if c: "AudioFileCreate lang name url fsize dur fmt = Inr data"
  proof -
    have l: "afc_language data = py_lower lang" "py_lower lang \<in> set allowed_languages"
      using AudioFileCreate_Inr [OF c] by auto
    have s: "set (map doc_language (snd (audio_service_create_audio_file coll new_id now data)))
          \<subseteq> set (map doc_language coll) \<union> {afc_language data}"
      using create_coll [of coll new_id now data] by auto
    show ?thesis
      using l s by (simp add: py_lower_idem allowed_languages_def)
  qed
  have b: "set (map doc_language
           (st_coll (snd (upload_audio_file cfg st file language token new_id' now'))))
       \<subseteq> set (map doc_language (st_coll st)) \<union> {''en'', ''ar''}"
    using upload_coll [of cfg st "file" language token new_id' now'] by auto
  show ?thesis
    using a b update_no_language [of u coll' audio_id now'']
      delete_subset [of coll'' audio_id' deleted coll''']
    by blast
qed

theorem language_of_created_records_witness:
  "set (map doc_language (snd (audio_service_create_audio_file [] example_id 0 english_data)))
     \<subseteq> {''english''}
   \<and> set (map doc_language (st_coll (snd (upload_audio_file default_settings empty_state
        example_upload ''Arabic'' example_token example_id 0)))) \<subseteq> {''en'', ''ar''}
   \<and> map doc_language (snd (audio_service_update_audio_file three_en_two_ar example_id
        (url_update ''http://localhost:8000/audio_files/moved.mp3'') 5))
     = map doc_language three_en_two_ar
   \<and> set (snd (the_deleted three_en_two_ar)) \<subseteq> set three_en_two_ar"
proof -
  have c: "AudioFileCreate ''English'' ''sample_english.mp3''
       ''http://localhost:8000/audio_files/sample_english.mp3'' 12 None ''mp3''
     = Inr english_data"
    by (simp add: AudioFileCreate_def validate_language_def validate_format_def
        allowed_languages_def allowed_formats_def english_data_def py_eval)
  have u: "upd_language (url_update ''http://localhost:8000/audio_files/moved.mp3'') = None"
    by (simp add: url_update_def)
  have d: "audio_service_delete_audio_file three_en_two_ar example_id
      = Inr (the_deleted three_en_two_ar)"
    by (simp add: audio_service_delete_audio_file_def ObjectId_example the_deleted_def
        split: prod.splits)
  note h = language_of_created_records
    [of "''English''" "''sample_english.mp3''"
      "''http://localhost:8000/audio_files/sample_english.mp3''" 12 None "''mp3''" english_data
      "[]" example_id 0 default_settings empty_state example_upload "''Arabic''" example_token
      example_id 0 "url_update ''http://localhost:8000/audio_files/moved.mp3''"
      three_en_two_ar example_id 5 three_en_two_ar example_id
      "fst (the_deleted three_en_two_ar)" "snd (the_deleted three_en_two_ar)"]
  have al: "afc_language english_data = ''english''"
    by (simp add: english_data_def)
  have ec: "st_coll empty_state = []"
    by (simp add: empty_state_def)
  have d': "audio_service_delete_audio_file three_en_two_ar example_id
      = Inr (fst (the_deleted three_en_two_ar), snd (the_deleted three_en_two_ar))"
    using d by simp
  note h1 = h [THEN conjunct1, rule_format, OF c, THEN conjunct2, THEN conjunct2, THEN conjunct2]
  note h2 = h [THEN conjunct2, THEN conjunct1]
  note h3 = h [THEN conjunct2, THEN conjunct2, THEN conjunct1, rule_format, OF u]
  note h4 = h [THEN conjunct2, THEN conjunct2, THEN conjunct2, rule_format, OF d']
  have "set (map doc_language (snd (audio_service_create_audio_file [] example_id 0 english_data)))
     \<subseteq> {''english''}"
    using h1 unfolding al by simp
  moreover have "set (map doc_language (st_coll (snd (upload_audio_file default_settings
        empty_state example_upload ''Arabic'' example_token example_id 0)))) \<subseteq> {''en'', ''ar''}"
    using h2 unfolding ec by simp
  moreover note h3 h4
  ultimately show ?thesis by simp
qed

section \<open>The language normalizer\<close>

text \<open>
  Claim C9.  \<open>normalize_language_code\<close> is idempotent on every input string;
  \<^verbatim>\<open>English\<close> and \<^verbatim>\<open>en\<close> both normalize to \<^verbatim>\<open>en\<close>, and so does \<^verbatim>\<open>ENG\<close> between two
  blanks.  The result is the lower-cased, trimmed input, except that \<^verbatim>\<open>english\<close> and
  \<^verbatim>\<open>eng\<close> become \<^verbatim>\<open>en\<close> and \<^verbatim>\<open>arabic\<close> and \<^verbatim>\<open>ara\<close> become \<^verbatim>\<open>ar\<close>.  Trimming: white space
  added at either end of an input does not change the result; an input without white
  space at its ends is only lower-cased before the alias table is consulted; and the
  result never begins or ends with white space.  Lower-casing: the result holds no
  upper-case letter.  The function is total: no input string makes it fail.  Strings are
  the strings of code points below 256, as everywhere in this development.
\<close>

theorem normalize_language_code_idempotent:
  "normalize_language_code (normalize_language_code x) = normalize_language_code x
   \<and> normalize_language_code ''English'' = ''en''
   \<and> normalize_language_code ''en'' = ''en''
   \<and> normalize_language_code '' ENG '' = ''en''
   \<and> normalize_language_code (CHR 0x09 # ''Arabic'' @ [CHR 0x0A]) = ''ar''
   \<and> normalize_language_code ''  Fr '' = ''fr''
   \<and> normalize_language_code x =
       (let y = py_strip (py_lower x)
        in if y \<in> {''english'', ''eng''} then ''en''
           else if y \<in> {''arabic'', ''ara''} then ''ar'' else y)
   \<and> (list_all is_space l \<and> list_all is_space r \<longrightarrow>
        normalize_language_code (l @ x @ r) = normalize_language_code x)
   \<and> (x = [] \<or> (\<not> is_space (hd x) \<and> \<not> is_space (last x)) \<longrightarrow>
        normalize_language_code x =
          (if py_lower x \<in> {''english'', ''eng''} then ''en''
           else if py_lower x \<in> {''arabic'', ''ara''} then ''ar'' else py_lower x))
   \<and> \<not> list_ex is_upper (normalize_language_code x)
   \<and> (normalize_language_code x \<noteq> [] \<longrightarrow>
        \<not> is_space (hd (normalize_language_code x))
        \<and> \<not> is_space (last (normalize_language_code x)))"
proof -
  define y where "y = py_strip (py_lower x)"
  have nx: "normalize_language_code x =
      (if y \<in> {''english'', ''eng''} then ''en''
       else if y \<in> {''arabic'', ''ara''} then ''ar'' else y)"
    unfolding y_def using normalize_language_code_cases [of x] by (simp add: Let_def)
  have ny: "normalize_language_code y =
      (if y \<in> {''english'', ''eng''} then ''en''
       else if y \<in> {''arabic'', ''ara''} then ''ar'' else y)"
    using normalize_language_code_cases [of y] py_strip_lower_fixed [of x]
    by (simp add: Let_def y_def)
  have idem: "normalize_language_code (normalize_language_code x) = normalize_language_code x"
  proof (cases "y \<in> {''english'', ''eng''}")
    case True
    then show ?thesis using nx normalize_language_code_codes by simp
  next
    case False
    show ?thesis
    proof (cases "y \<in> {''arabic'', ''ara''}")
      case True
      then show ?thesis using nx False normalize_language_code_codes by simp
    next
      case no_alias: False
      then show ?thesis using nx ny False by simp
    qed
  qed
  have inst: "normalize_language_code ''English'' = ''en''"
    "normalize_language_code '' ENG '' = ''en''"
    "normalize_language_code (CHR 0x09 # ''Arabic'' @ [CHR 0x0A]) = ''ar''"
    "normalize_language_code ''  Fr '' = ''fr''"
    by (simp_all add: normalize_language_code_cases py_strip_def py_lower_def lower_char_def
        is_upper_def is_space_def char_of_eq_iff)
  have pad: "list_all is_space l \<and> list_all is_space r \<longrightarrow>
        normalize_language_code (l @ x @ r) = normalize_language_code x"
    using normalize_language_code_pad by blast
  have trimmed: "x = [] \<or> (\<not> is_space (hd x) \<and> \<not> is_space (last x)) \<longrightarrow>
        normalize_language_code x =
          (if py_lower x \<in> {''english'', ''eng''} then ''en''
           else if py_lower x \<in> {''arabic'', ''ara''} then ''ar'' else py_lower x)"
  proof
    assume "x = [] \<or> (\<not> is_space (hd x) \<and> \<not> is_space (last x))"
    then show "normalize_language_code x =
          (if py_lower x \<in> {''english'', ''eng''} then ''en''
           else if py_lower x \<in> {''arabic'', ''ara''} then ''ar'' else py_lower x)"
      using nx py_lower_trimmed [of x] by (simp add: y_def)
  qed
  have ends: "normalize_language_code x \<noteq> [] \<longrightarrow>
        \<not> is_space (hd (normalize_language_code x))
        \<and> \<not> is_space (last (normalize_language_code x))"
    using normalize_language_code_shape(2) [of x] by (rule impI)
  have full: "normalize_language_code x =
       (let y = py_strip (py_lower x)
        in if y \<in> {''english'', ''eng''} then ''en''
           else if y \<in> {''arabic'', ''ara''} then ''ar'' else y)"
    by (rule normalize_language_code_cases)
  from idem inst(1) normalize_language_code_codes(1) inst(2) inst(3) inst(4) full
  show ?thesis
    using pad trimmed normalize_language_code_shape(1) [of x] ends
    by (intro conjI) assumption+
qed

theorem normalize_language_code_idempotent_witness:
  "normalize_language_code ([CHR 0x0B, CHR 0xA0] @ ''ENG'' @ [CHR 0x85, CHR 0x1F]) = ''en''
   \<and> normalize_language_code ''ENG'' = ''en''
   \<and> normalize_language_code (normalize_language_code ''ENG'') = ''en''
   \<and> \<not> is_space (hd (normalize_language_code ''ENG''))
   \<and> \<not> is_space (last (normalize_language_code ''ENG''))"
proof -
  have sp: "list_all is_space [CHR 0x0B, CHR 0xA0] \<and> list_all is_space [CHR 0x85, CHR 0x1F]"
    by (simp add: is_space_def)
  have tr: "''ENG'' = [] \<or> (\<not> is_space (hd ''ENG'') \<and> \<not> is_space (last ''ENG''))"
    by (simp add: is_space_def)
  have lo: "py_lower ''ENG'' = ''eng''" by (simp add: py_eval)
  note t = normalize_language_code_idempotent
      [of "''ENG''" "[CHR 0x0B, CHR 0xA0]" "[CHR 0x85, CHR 0x1F]"]
  have a: "normalize_language_code ([CHR 0x0B, CHR 0xA0] @ ''ENG'' @ [CHR 0x85, CHR 0x1F])
      = normalize_language_code ''ENG''"
    using t [THEN conjunct2, THEN conjunct2, THEN conjunct2, THEN conjunct2, THEN conjunct2,
        THEN conjunct2, THEN conjunct2, THEN conjunct1, rule_format, OF sp] .
  have b: "normalize_language_code ''ENG'' = ''en''"
    using t [THEN conjunct2, THEN conjunct2, THEN conjunct2, THEN conjunct2, THEN conjunct2,
        THEN conjunct2, THEN conjunct2, THEN conjunct2, THEN conjunct1, rule_format, OF tr]
    unfolding lo by simp
  have c: "normalize_language_code (normalize_language_code ''ENG'') = normalize_language_code ''ENG''"
    using t [THEN conjunct1] .
  have ne: "normalize_language_code ''ENG'' \<noteq> []" unfolding b by simp
  have d: "\<not> is_space (hd (normalize_language_code ''ENG''))
      \<and> \<not> is_space (last (normalize_language_code ''ENG''))"
    using t [THEN conjunct2, THEN conjunct2, THEN conjunct2, THEN conjunct2, THEN conjunct2,
        THEN conjunct2, THEN conjunct2, THEN conjunct2, THEN conjunct2, THEN conjunct2,
        rule_format, OF ne] .
  have a': "normalize_language_code ([CHR 0x0B, CHR 0xA0] @ ''ENG'' @ [CHR 0x85, CHR 0x1F]) = ''en''"
    using a b by simp
  have c': "normalize_language_code (normalize_language_code ''ENG'') = ''en''"
    using c b by simp
  show ?thesis
    using a' b c' d [THEN conjunct1] d [THEN conjunct2] by (intro conjI)
qed

section \<open>The admission guard: structural validation\<close>

text \<open>
  Claim C10.  When the body of \<open>_validate_request\<close> raises on an http request of a client
  that is not blocked, the guard answers 400 and leaves its state as it was: the request
  is neither handed to the application nor counted.  A \<^verbatim>\<open>content-length\<close> header that
  \<^verbatim>\<open>int\<close> cannot parse makes the body raise.  When the header parses to \<open>n\<close>, the request
  passes validation exactly when \<open>n\<close> is at most \<open>10 * 1024 * 1024\<close>; the guard takes no
  setting as an argument, so \<open>MAX_FILE_SIZE\<close> has no part in it.
\<close>

theorem guard_validation_fails_closed:
  "(req_is_http r \<and> get_remote_address r \<notin> blocked_ips s \<and> validate_request_body r = Inl e
      \<longrightarrow> guard_call s r = (Respond 400, s))
   \<and> (\<not> header_loop r suspicious_headers \<and> header_get r ''content-length'' = Some v
        \<and> v \<noteq> [] \<and> py_int v = None
      \<longrightarrow> validate_request_body r = Inl ValueError)
   \<and> (\<not> header_loop r' suspicious_headers \<and> header_get r' ''content-length'' = Some v'
        \<and> py_int v' = Some n
      \<longrightarrow> validate_request r' = (n \<le> 10 * 1024 * 1024))"
proof -
  have a: "guard_call s r = (Respond 400, s)"
    if "req_is_http r" "get_remote_address r \<notin> blocked_ips s" "validate_request_body r = Inl e"
    using that by (simp add: guard_call_def validate_request_def)
  have b: "validate_request_body r = Inl ValueError"
    if "\<not> header_loop r suspicious_headers" "header_get r ''content-length'' = Some v"
       "v \<noteq> []" "py_int v = None"
    using that by (simp add: validate_request_body_def)
  have c: "validate_request r' = (n \<le> 10 * 1024 * 1024)"
    if "\<not> header_loop r' suspicious_headers" "header_get r' ''content-length'' = Some v'"
       "py_int v' = Some n"
  proof -
    have "v' \<noteq> []" using that(3) py_int_Nil by auto
    then show ?thesis
      using that by (auto simp add: validate_request_body_def validate_request_def)
  qed
  show ?thesis using a b c by blast
qed

theorem guard_validation_fails_closed_witness:
  "guard_call guard_init
     \<lparr>req_is_http = True, req_client = Some ''10.0.0.1'',
      req_headers = [(''content-length'', ''abc'')], req_time = 0\<rparr>
     = (Respond 400, guard_init)
   \<and> validate_request
     \<lparr>req_is_http = True, req_client = Some ''10.0.0.1'',
      req_headers = [(''content-length'', ''10485761'')], req_time = 0\<rparr> = False
   \<and> validate_request
     \<lparr>req_is_http = True, req_client = Some ''10.0.0.1'',
      req_headers = [(''content-length'', ''10485760'')], req_time = 0\<rparr> = True
   \<and> guard_call guard_init
     \<lparr>req_is_http = True, req_client = Some ''10.0.0.1'',
      req_headers = [(''content-length'', CHR 0x1C # ''12'')], req_time = 0\<rparr>
     = (Respond 400, guard_init)
   \<and> validate_request
     \<lparr>req_is_http = True, req_client = Some ''10.0.0.1'',
      req_headers = [(''content-length'', CHR 0xA0 # ''1_2 '')], req_time = 0\<rparr> = True"
proof -
  let ?sep = "\<lparr>req_is_http = True, req_client = Some ''10.0.0.1'',
             req_headers = [(''content-length'', CHR 0x1C # ''12'')], req_time = 0\<rparr>"
  let ?nbsp = "\<lparr>req_is_http = True, req_client = Some ''10.0.0.1'',
             req_headers = [(''content-length'', CHR 0xA0 # ''1_2 '')], req_time = 0\<rparr>"
  let ?r = "\<lparr>req_is_http = True, req_client = Some ''10.0.0.1'',
             req_headers = [(''content-length'', ''abc'')], req_time = 0\<rparr>"
  let ?big = "\<lparr>req_is_http = True, req_client = Some ''10.0.0.1'',
             req_headers = [(''content-length'', ''10485761'')], req_time = 0\<rparr>"
  let ?ok = "\<lparr>req_is_http = True, req_client = Some ''10.0.0.1'',
             req_headers = [(''content-length'', ''10485760'')], req_time = 0\<rparr>"
  have hl: "\<not> header_loop ?r suspicious_headers" "\<not> header_loop ?big suspicious_headers"
    "\<not> header_loop ?ok suspicious_headers"
    by (simp_all add: suspicious_headers_def header_get_def py_eval)
  have hl': "\<not> header_loop ?sep suspicious_headers" "\<not> header_loop ?nbsp suspicious_headers"
    by (simp_all add: suspicious_headers_def header_get_def py_eval)
  have hg': "header_get ?sep ''content-length'' = Some (CHR 0x1C # ''12'')"
    "header_get ?nbsp ''content-length'' = Some (CHR 0xA0 # ''1_2 '')"
    by (simp_all add: header_get_def py_eval)
  have pi': "py_int (CHR 0x1C # ''12'') = None" "py_int (CHR 0xA0 # ''1_2 '') = Some 12"
    by (simp_all add: py_int_def py_eval digits_value_def max_str_digits_def)
  have ne': "CHR 0x1C # ''12'' \<noteq> []" by simp
  note sep = guard_validation_fails_closed
      [of ?sep guard_init ValueError "CHR 0x1C # ''12''" ?nbsp "CHR 0xA0 # ''1_2 ''" 12]
  have raises': "validate_request_body ?sep = Inl ValueError"
    using sep [THEN conjunct2, THEN conjunct1, rule_format,
        OF conjI [OF hl'(1) conjI [OF hg'(1) conjI [OF ne' pi'(1)]]]] .
  have nb': "get_remote_address ?sep \<notin> blocked_ips guard_init"
    by (simp add: guard_init_def)
  have http': "req_is_http ?sep" by simp
  have sep400: "guard_call guard_init ?sep = (Respond 400, guard_init)"
    using sep [THEN conjunct1, rule_format, OF conjI [OF http' conjI [OF nb' raises']]] .
  have "validate_request ?nbsp = (12 \<le> (10 * 1024 * 1024 :: int))"
    using sep [THEN conjunct2, THEN conjunct2, rule_format,
        OF conjI [OF hl'(2) conjI [OF hg'(2) pi'(2)]]] .
  then have nbsp_ok: "validate_request ?nbsp = True" by simp
  have hg: "header_get ?r ''content-length'' = Some ''abc''"
    "header_get ?big ''content-length'' = Some ''10485761''"
    "header_get ?ok ''content-length'' = Some ''10485760''"
    by (simp_all add: header_get_def py_eval)
  have pi: "py_int ''abc'' = None" "py_int ''10485761'' = Some 10485761"
    "py_int ''10485760'' = Some 10485760"
    by (simp_all add: py_int_def py_eval digits_value_def max_str_digits_def)
  have raises: "validate_request_body ?r = Inl ValueError"
    using guard_validation_fails_closed [of ?r guard_init ValueError "''abc''" ?ok "''10485760''" 10485760]
      hl hg pi by simp
  have nb: "get_remote_address ?r \<notin> blocked_ips guard_init"
    by (simp add: guard_init_def)
  have "guard_call guard_init ?r = (Respond 400, guard_init)"
    using guard_validation_fails_closed [of ?r guard_init ValueError "''abc''" ?ok "''10485760''" 10485760]
      raises nb by simp
  moreover have "validate_request ?big = False"
    using guard_validation_fails_closed [of ?r guard_init ValueError "''abc''" ?big "''10485761''" 10485761]
      hl hg pi by simp
  moreover have "validate_request ?ok = True"
    using guard_validation_fails_closed [of ?r guard_init ValueError "''abc''" ?ok "''10485760''" 10485760]
      hl hg pi by simp
  ultimately show ?thesis using sep400 nbsp_ok by simp
qed

end
